theory Spec2Isabelle
  imports Complex_Main "HOL-Library.Word"
begin

section \<open>JavaScript values\<close>

text \<open>
  A JavaScript string is a sequence of UTF-16 code units and \<open>.length\<close> counts
  them, so a string is a list of 16-bit words. \<open>ustr\<close> embeds the ASCII literals of
  the source text.
\<close>

type_synonym jsstring = "16 word list"

definition ustr :: "string \<Rightarrow> jsstring" where
  "ustr s = map of_char s"

text \<open>
  A JavaScript number is an IEEE double: NaN, an infinity, or a finite value. Every
  finite double is a rational number, and the schemas only compare numbers and test
  \<open>Number.isInteger\<close>, both exact on doubles; the model takes every rational as a
  possible finite value.
\<close>

datatype jsnum = NaN | PosInf | NegInf | Fin rat

text \<open>
  The values a schema can be handed (\<open>unknown\<close> in the source). An object is the
  list of its own enumerable properties; \<open>JOther\<close> stands for the values whose
  parsed type is none of the others (functions, symbols, bigints, dates, maps, sets,
  promises).
\<close>

datatype jsval =
    JUndefined
  | JNull
  | JBool bool
  | JNum jsnum
  | JStr jsstring
  | JArr "jsval list"
  | JObj "(jsstring \<times> jsval) list"
  | JOther

text \<open>The relational operators on numbers: every comparison with NaN is false.\<close>

fun js_lt :: "jsnum \<Rightarrow> jsnum \<Rightarrow> bool" where
  "js_lt NaN _ = False"
| "js_lt _ NaN = False"
| "js_lt (Fin a) (Fin b) = (a < b)"
| "js_lt _ NegInf = False"
| "js_lt PosInf _ = False"
| "js_lt NegInf _ = True"
| "js_lt (Fin _) PosInf = True"

fun js_le :: "jsnum \<Rightarrow> jsnum \<Rightarrow> bool" where
  "js_le NaN _ = False"
| "js_le _ NaN = False"
| "js_le (Fin a) (Fin b) = (a \<le> b)"
| "js_le NegInf _ = True"
| "js_le _ PosInf = True"
| "js_le PosInf _ = False"
| "js_le (Fin _) NegInf = False"

definition js_gt :: "jsnum \<Rightarrow> jsnum \<Rightarrow> bool" where
  "js_gt a b = js_lt b a"

text \<open>\<open>Number.isInteger\<close>: a finite number with no fractional part.\<close>

fun isInteger :: "jsnum \<Rightarrow> bool" where
  "isInteger (Fin q) = (of_int \<lfloor>q\<rfloor> = q)"
| "isInteger _ = False"

text \<open>Property access \<open>data[key]\<close> and the \<open>key in data\<close> test on an object.\<close>

definition get_prop :: "(jsstring \<times> jsval) list \<Rightarrow> jsstring \<Rightarrow> jsval" where
  "get_prop kvs k = (case map_of kvs k of Some v \<Rightarrow> v | None \<Rightarrow> JUndefined)"

definition has_prop :: "(jsstring \<times> jsval) list \<Rightarrow> jsstring \<Rightarrow> bool" where
  "has_prop kvs k = (k \<in> set (map fst kvs))"

section \<open>The schema library (Zod 3) as far as the schemas use it\<close>

text \<open>
  A schema parses a value at a path and returns a status, the parsed value and the
  issues it raised. \<open>Aborted\<close> is the library's \<open>INVALID\<close>: no value is produced
  (the model puts \<open>JUndefined\<close> there). \<open>Dirty\<close> is a value with issues.
\<close>

datatype parse_status = Valid | Dirty | Aborted

datatype issue_code =
    invalid_type
  | too_small
  | too_big
  | unrecognized_keys
  | custom
  | invalid_enum_value
  | invalid_union
  | invalid_string

text \<open>
  The message of an issue is the one the schema gives, or else the library's built-in
  text for the code, which is not part of this repository.
\<close>

datatype zmessage = Message string | BuiltinMessage

record ValidationErrorDetail =
  path :: "jsstring list"
  message :: zmessage
  code :: issue_code

datatype parse_return =
  PR (status: parse_status) (pvalue: jsval) (issues: "ValidationErrorDetail list")

type_synonym schema = "jsstring list \<Rightarrow> jsval \<Rightarrow> parse_return"

definition OK :: "jsval \<Rightarrow> parse_return" where
  "OK v = PR Valid v []"

definition INVALID :: "ValidationErrorDetail list \<Rightarrow> parse_return" where
  "INVALID iss = PR Aborted JUndefined iss"

definition mk_issue :: "jsstring list \<Rightarrow> issue_code \<Rightarrow> zmessage \<Rightarrow> ValidationErrorDetail" where
  "mk_issue p c m = \<lparr>path = p, message = m, code = c\<rparr>"

text \<open>
  The checks of a number schema, in the order they were chained. Each check that fails
  adds its issue and makes the result dirty; the later checks still run.
\<close>

datatype num_check = IntCheck zmessage | MinCheck rat zmessage | MaxCheck rat zmessage

fun num_check_issue :: "jsstring list \<Rightarrow> jsnum \<Rightarrow> num_check \<Rightarrow> ValidationErrorDetail list" where
  "num_check_issue p n (IntCheck m) =
     (if \<not> isInteger n then [mk_issue p invalid_type m] else [])"
| "num_check_issue p n (MinCheck lo m) =
     (if js_lt n (Fin lo) then [mk_issue p too_small m] else [])"
| "num_check_issue p n (MaxCheck hi m) =
     (if js_gt n (Fin hi) then [mk_issue p too_big m] else [])"

definition run_num_checks :: "num_check list \<Rightarrow> jsstring list \<Rightarrow> jsnum \<Rightarrow> parse_return" where
  "run_num_checks checks p n =
     (let iss = concat (map (num_check_issue p n) checks)
      in PR (if iss = [] then Valid else Dirty) (JNum n) iss)"

text \<open>
  \<open>z.number({required_error, invalid_type_error})\<close> with its checks: a value that
  is not a number, or is NaN, is an \<open>invalid_type\<close> issue and aborts; the message is
  \<open>required_error\<close> for \<open>undefined\<close> and \<open>invalid_type_error\<close> otherwise.
\<close>

definition z_number :: "zmessage \<Rightarrow> zmessage \<Rightarrow> num_check list \<Rightarrow> schema" where
  "z_number required_error invalid_type_error checks p v =
     (case v of
        JNum n \<Rightarrow>
          (if n = NaN then INVALID [mk_issue p invalid_type invalid_type_error]
           else run_num_checks checks p n)
      | JUndefined \<Rightarrow> INVALID [mk_issue p invalid_type required_error]
      | _ \<Rightarrow> INVALID [mk_issue p invalid_type invalid_type_error])"

text \<open>\<open>.default(d)\<close>: \<open>undefined\<close> is replaced by \<open>d\<close>, then the inner schema runs.\<close>

definition z_default :: "jsval \<Rightarrow> schema \<Rightarrow> schema" where
  "z_default d inner p v = inner p (if v = JUndefined then d else v)"

text \<open>\<open>.optional()\<close>: \<open>undefined\<close> is accepted as it is; the inner schema is not run.\<close>

definition z_optional :: "schema \<Rightarrow> schema" where
  "z_optional inner p v = (if v = JUndefined then OK JUndefined else inner p v)"

text \<open>The checks of a string schema compare \<open>.length\<close> with the bound.\<close>

datatype str_check = StrMin nat zmessage | StrMax nat zmessage

fun str_check_issue :: "jsstring list \<Rightarrow> jsstring \<Rightarrow> str_check \<Rightarrow> ValidationErrorDetail list" where
  "str_check_issue p s (StrMin lo m) =
     (if length s < lo then [mk_issue p too_small m] else [])"
| "str_check_issue p s (StrMax hi m) =
     (if length s > hi then [mk_issue p too_big m] else [])"

definition z_string :: "zmessage \<Rightarrow> zmessage \<Rightarrow> str_check list \<Rightarrow> schema" where
  "z_string required_error invalid_type_error checks p v =
     (case v of
        JStr s \<Rightarrow>
          (let iss = concat (map (str_check_issue p s) checks)
           in PR (if iss = [] then Valid else Dirty) (JStr s) iss)
      | JUndefined \<Rightarrow> INVALID [mk_issue p invalid_type required_error]
      | _ \<Rightarrow> INVALID [mk_issue p invalid_type invalid_type_error])"

text \<open>
  \<open>z.object(shape)\<close>. Every key of the shape is parsed, in order, on \<open>data[key]\<close>
  at the path extended by the key. The keys of the data that the shape does not have
  are the extra keys: \<open>.strict()\<close> raises one \<open>unrecognized_keys\<close> issue for them
  and makes the result dirty, the default mode drops them. The results are then merged:
  one aborted field aborts the object; a field is written to the output when its parsed
  value is not \<open>undefined\<close> or its key is in the data.
\<close>

datatype unknown_keys = strict | strip

definition extra_keys :: "(jsstring \<times> schema) list \<Rightarrow> (jsstring \<times> jsval) list \<Rightarrow> jsstring list" where
  "extra_keys shape kvs = filter (\<lambda>k. k \<notin> set (map fst shape)) (remdups (map fst kvs))"

definition parse_pairs ::
  "(jsstring \<times> schema) list \<Rightarrow> jsstring list \<Rightarrow> (jsstring \<times> jsval) list
     \<Rightarrow> (jsstring \<times> parse_return \<times> bool) list" where
  "parse_pairs shape p kvs =
     map (\<lambda>(k, sch). (k, sch (p @ [k]) (get_prop kvs k), has_prop kvs k)) shape"

definition mergeObjectSync ::
  "bool \<Rightarrow> ValidationErrorDetail list \<Rightarrow> (jsstring \<times> parse_return \<times> bool) list \<Rightarrow> parse_return" where
  "mergeObjectSync dirty0 iss pairs =
     (if \<exists>(k, r, a) \<in> set pairs. status r = Aborted then INVALID iss
      else PR (if dirty0 \<or> (\<exists>(k, r, a) \<in> set pairs. status r = Dirty) then Dirty else Valid)
              (JObj (map (\<lambda>(k, r, a). (k, pvalue r))
                       (filter (\<lambda>(k, r, a). pvalue r \<noteq> JUndefined \<or> a) pairs)))
              iss)"

definition z_object :: "unknown_keys \<Rightarrow> (jsstring \<times> schema) list \<Rightarrow> schema" where
  "z_object mode shape p v =
     (case v of
        JObj kvs \<Rightarrow>
          (let extra = extra_keys shape kvs;
               pairs = parse_pairs shape p kvs;
               unrecognized = (mode = strict \<and> extra \<noteq> []);
               iss = concat (map (\<lambda>(k, r, a). issues r) pairs)
                     @ (if unrecognized then [mk_issue p unrecognized_keys BuiltinMessage] else [])
           in mergeObjectSync unrecognized iss pairs)
      | _ \<Rightarrow> INVALID [mk_issue p invalid_type BuiltinMessage])"

text \<open>
  \<open>.refine(check, {message, path})\<close>: the inner schema runs first; if it aborted, so
  does the refinement, without calling \<open>check\<close>. Otherwise \<open>check\<close> sees the parsed
  value (also a dirty one), and a false answer adds a \<open>custom\<close> issue at the path
  extended by \<open>path\<close>.
\<close>

definition z_refine :: "(jsval \<Rightarrow> bool) \<Rightarrow> zmessage \<Rightarrow> jsstring list \<Rightarrow> schema \<Rightarrow> schema" where
  "z_refine check m sub inner p v =
     (let r = inner p v
      in if status r = Aborted then INVALID (issues r)
         else if check (pvalue r) then r
         else PR Dirty (pvalue r) (issues r @ [mk_issue (p @ sub) custom m]))"

text \<open>
  \<open>schema.safeParse(data)\<close> succeeds exactly when the status is valid;
  \<open>schema.parse(data)\<close> throws the error \<open>safeParse\<close> would return.
\<close>

datatype 'a SafeParseReturn = SafeSuccess 'a | SafeError "ValidationErrorDetail list"

definition safeParse :: "schema \<Rightarrow> jsval \<Rightarrow> jsval SafeParseReturn" where
  "safeParse sch v =
     (let r = sch [] v
      in if status r = Valid then SafeSuccess (pvalue r) else SafeError (issues r))"

datatype ZodError = ZodError "ValidationErrorDetail list"

definition parse :: "schema \<Rightarrow> jsval \<Rightarrow> ZodError + jsval" where
  "parse sch v =
     (case safeParse sch v of SafeSuccess d \<Rightarrow> Inr d | SafeError iss \<Rightarrow> Inl (ZodError iss))"

text \<open>
  The remaining combinators are the ones the environment schema chains.
  \<open>z.enum(values)\<close> accepts a string among the values; \<open>z.boolean()\<close> a boolean.
\<close>

definition z_enum :: "jsstring list \<Rightarrow> schema" where
  "z_enum vals p v =
     (case v of
        JStr s \<Rightarrow>
          (if s \<in> set vals then OK (JStr s)
           else INVALID [mk_issue p invalid_enum_value BuiltinMessage])
      | _ \<Rightarrow> INVALID [mk_issue p invalid_type BuiltinMessage])"

definition z_boolean :: schema where
  "z_boolean p v =
     (case v of
        JBool b \<Rightarrow> OK (JBool b)
      | _ \<Rightarrow> INVALID [mk_issue p invalid_type BuiltinMessage])"

text \<open>
  \<open>a.or(b)\<close>: the first option whose result is valid wins; failing that the first
  dirty result, with its issues; failing that one \<open>invalid_union\<close> issue.
\<close>

definition z_or :: "schema \<Rightarrow> schema \<Rightarrow> schema" where
  "z_or a b p v =
     (let ra = a p v
      in if status ra = Valid then ra
         else (let rb = b p v
               in if status rb = Valid then rb
                  else if status ra = Dirty then ra
                  else if status rb = Dirty then rb
                  else INVALID [mk_issue p invalid_union BuiltinMessage]))"

text \<open>
  \<open>.transform(f)\<close>: a result of the inner schema that is not valid is returned as
  it is; a valid value is replaced by \<open>f\<close> of it.
\<close>

definition z_transform :: "(jsval \<Rightarrow> jsval) \<Rightarrow> schema \<Rightarrow> schema" where
  "z_transform f inner p v =
     (let base = inner p v
      in if status base \<noteq> Valid then base else PR Valid (f (pvalue base)) (issues base))"

text \<open>
  The transform of a string schema is handed a string; \<open>on_str\<close> applies a function
  of strings to it.
\<close>

definition on_str :: "(jsstring \<Rightarrow> jsval) \<Rightarrow> jsval \<Rightarrow> jsval" where
  "on_str f v = (case v of JStr s \<Rightarrow> f s | _ \<Rightarrow> JUndefined)"

text \<open>
  \<open>z.string().url()\<close>: a string that \<open>new URL\<close> refuses is an
  \<open>invalid_string\<close> issue and a dirty result.
\<close>

definition z_string_url :: "(jsstring \<Rightarrow> bool) \<Rightarrow> schema" where
  "z_string_url valid p v =
     (case v of
        JStr s \<Rightarrow>
          (if valid s then OK (JStr s)
           else PR Dirty (JStr s) [mk_issue p invalid_string BuiltinMessage])
      | _ \<Rightarrow> INVALID [mk_issue p invalid_type BuiltinMessage])"

text \<open>
  \<open>z.coerce.number()\<close>: the input is replaced by \<open>Number(input)\<close> before the
  number schema reads it.
\<close>

definition z_coerce_number :: "(jsval \<Rightarrow> jsnum) \<Rightarrow> num_check list \<Rightarrow> schema" where
  "z_coerce_number Number checks p v =
     z_number BuiltinMessage BuiltinMessage checks p (JNum (Number v))"

section \<open>Session schemas (src/server/session/core/schemas.ts)\<close>

subsection \<open>Constants\<close>

text \<open>
  The five \<open>DEFAULT_SESSION_*\<close> constants are imported from \<open>./constants.js\<close>,
  which is not among the sources. They are numbers (each is the argument of a number
  schema's \<open>.default\<close>) and are taken as a parameter of every definition that reads
  them.
\<close>

record session_constants =
  DEFAULT_SESSION_TIMEOUT_MS :: rat
  DEFAULT_SESSION_CLEANUP_INTERVAL_MS :: rat
  DEFAULT_SESSION_KEEP_ALIVE_INTERVAL_MS :: rat
  DEFAULT_SESSION_MAX_MISSED_HEARTBEATS :: rat
  DEFAULT_SESSION_MAX_COUNT :: rat

text \<open>\<open>SESSION_CONFIG_LIMITS\<close>, with the products as the source writes them.\<close>

definition MIN_TIMEOUT_MS :: rat where "MIN_TIMEOUT_MS = 60000"
definition MAX_TIMEOUT_MS :: rat where "MAX_TIMEOUT_MS = 5 * 365 * 24 * 60 * 60 * 1000"
definition MIN_CLEANUP_INTERVAL_MS :: rat where "MIN_CLEANUP_INTERVAL_MS = 10000"
definition MAX_CLEANUP_INTERVAL_MS :: rat where "MAX_CLEANUP_INTERVAL_MS = 60 * 60 * 1000"
definition MIN_KEEP_ALIVE_INTERVAL_MS :: rat where "MIN_KEEP_ALIVE_INTERVAL_MS = 5000"
definition MAX_KEEP_ALIVE_INTERVAL_MS :: rat where "MAX_KEEP_ALIVE_INTERVAL_MS = 5 * 60 * 1000"
definition MIN_MISSED_HEARTBEATS :: rat where "MIN_MISSED_HEARTBEATS = 1"
definition MAX_MISSED_HEARTBEATS :: rat where "MAX_MISSED_HEARTBEATS = 100"
definition MIN_SESSION_COUNT :: rat where "MIN_SESSION_COUNT = 1"
definition MAX_SESSION_COUNT :: rat where "MAX_SESSION_COUNT = 10000"

text \<open>\<open>SESSION_VALIDATION_MESSAGES\<close>, the template literals filled in.\<close>

definition TIMEOUT_MIN :: string where
  "TIMEOUT_MIN = ''Session timeout must be at least 60000ms (1 minute)''"
definition TIMEOUT_MAX :: string where
  "TIMEOUT_MAX = ''Session timeout must be at most 157680000000ms (5 years)''"
definition TIMEOUT_TYPE :: string where
  "TIMEOUT_TYPE = ''Session timeout must be a positive integer''"
definition CLEANUP_MIN :: string where
  "CLEANUP_MIN = ''Cleanup interval must be at least 10000ms (10 seconds)''"
definition CLEANUP_MAX :: string where
  "CLEANUP_MAX = ''Cleanup interval must be at most 3600000ms (1 hour)''"
definition CLEANUP_TYPE :: string where
  "CLEANUP_TYPE = ''Cleanup interval must be a positive integer''"
definition KEEP_ALIVE_MIN :: string where
  "KEEP_ALIVE_MIN = ''Keep-alive interval must be at least 5000ms (5 seconds)''"
definition KEEP_ALIVE_MAX :: string where
  "KEEP_ALIVE_MAX = ''Keep-alive interval must be at most 300000ms (5 minutes)''"
definition KEEP_ALIVE_TYPE :: string where
  "KEEP_ALIVE_TYPE = ''Keep-alive interval must be a positive integer''"
definition HEARTBEATS_MIN :: string where
  "HEARTBEATS_MIN = ''Max missed heartbeats must be at least 1''"
definition HEARTBEATS_MAX :: string where
  "HEARTBEATS_MAX = ''Max missed heartbeats must be at most 100''"
definition HEARTBEATS_TYPE :: string where
  "HEARTBEATS_TYPE = ''Max missed heartbeats must be a positive integer''"
definition MAX_COUNT_MIN :: string where
  "MAX_COUNT_MIN = ''Max session count must be at least 1''"
definition MAX_COUNT_MAX :: string where
  "MAX_COUNT_MAX = ''Max session count must be at most 10000''"
definition MAX_COUNT_TYPE :: string where
  "MAX_COUNT_TYPE = ''Max session count must be a positive integer''"

subsection \<open>Field schemas\<close>

definition SessionTimeoutSchema :: "session_constants \<Rightarrow> schema" where
  "SessionTimeoutSchema D =
     z_default (JNum (Fin (DEFAULT_SESSION_TIMEOUT_MS D)))
       (z_number (Message ''Session timeout is required'') (Message TIMEOUT_TYPE)
          [IntCheck (Message TIMEOUT_TYPE),
           MinCheck MIN_TIMEOUT_MS (Message TIMEOUT_MIN),
           MaxCheck MAX_TIMEOUT_MS (Message TIMEOUT_MAX)])"

definition SessionCleanupIntervalSchema :: "session_constants \<Rightarrow> schema" where
  "SessionCleanupIntervalSchema D =
     z_default (JNum (Fin (DEFAULT_SESSION_CLEANUP_INTERVAL_MS D)))
       (z_number (Message ''Cleanup interval is required'') (Message CLEANUP_TYPE)
          [IntCheck (Message CLEANUP_TYPE),
           MinCheck MIN_CLEANUP_INTERVAL_MS (Message CLEANUP_MIN),
           MaxCheck MAX_CLEANUP_INTERVAL_MS (Message CLEANUP_MAX)])"

definition SessionKeepAliveIntervalSchema :: "session_constants \<Rightarrow> schema" where
  "SessionKeepAliveIntervalSchema D =
     z_default (JNum (Fin (DEFAULT_SESSION_KEEP_ALIVE_INTERVAL_MS D)))
       (z_number (Message ''Keep-alive interval is required'') (Message KEEP_ALIVE_TYPE)
          [IntCheck (Message KEEP_ALIVE_TYPE),
           MinCheck MIN_KEEP_ALIVE_INTERVAL_MS (Message KEEP_ALIVE_MIN),
           MaxCheck MAX_KEEP_ALIVE_INTERVAL_MS (Message KEEP_ALIVE_MAX)])"

definition SessionMaxMissedHeartbeatsSchema :: "session_constants \<Rightarrow> schema" where
  "SessionMaxMissedHeartbeatsSchema D =
     z_default (JNum (Fin (DEFAULT_SESSION_MAX_MISSED_HEARTBEATS D)))
       (z_number (Message ''Max missed heartbeats is required'') (Message HEARTBEATS_TYPE)
          [IntCheck (Message HEARTBEATS_TYPE),
           MinCheck MIN_MISSED_HEARTBEATS (Message HEARTBEATS_MIN),
           MaxCheck MAX_MISSED_HEARTBEATS (Message HEARTBEATS_MAX)])"

definition SessionMaxCountSchema :: "session_constants \<Rightarrow> schema" where
  "SessionMaxCountSchema D =
     z_default (JNum (Fin (DEFAULT_SESSION_MAX_COUNT D)))
       (z_number (Message ''Max session count is required'') (Message MAX_COUNT_TYPE)
          [IntCheck (Message MAX_COUNT_TYPE),
           MinCheck MIN_SESSION_COUNT (Message MAX_COUNT_MIN),
           MaxCheck MAX_SESSION_COUNT (Message MAX_COUNT_MAX)])"

subsection \<open>The configuration object\<close>

definition timeoutMs :: jsstring where "timeoutMs = ustr ''timeoutMs''"
definition cleanupIntervalMs :: jsstring where "cleanupIntervalMs = ustr ''cleanupIntervalMs''"
definition keepAliveIntervalMs :: jsstring where "keepAliveIntervalMs = ustr ''keepAliveIntervalMs''"
definition maxMissedHeartbeats :: jsstring where "maxMissedHeartbeats = ustr ''maxMissedHeartbeats''"
definition maxCount :: jsstring where "maxCount = ustr ''maxCount''"

definition SessionConfigShape :: "session_constants \<Rightarrow> (jsstring \<times> schema) list" where
  "SessionConfigShape D =
     [(timeoutMs, z_optional (SessionTimeoutSchema D)),
      (cleanupIntervalMs, z_optional (SessionCleanupIntervalSchema D)),
      (keepAliveIntervalMs, z_optional (SessionKeepAliveIntervalSchema D)),
      (maxMissedHeartbeats, z_optional (SessionMaxMissedHeartbeatsSchema D)),
      (maxCount, z_optional (SessionMaxCountSchema D))]"

definition SessionConfigBaseSchema :: "session_constants \<Rightarrow> schema" where
  "SessionConfigBaseSchema D = z_object strict (SessionConfigShape D)"

text \<open>
  The refinements read \<open>config.timeoutMs ?? DEFAULT\<close> from the parsed object and
  compare two numbers. \<open>field_or\<close> is the property access followed by \<open>??\<close>: the
  default stands in for \<open>undefined\<close> and \<open>null\<close>. The fields of a parsed
  configuration are numbers or \<open>undefined\<close>: a field's schema aborts on anything
  else, an aborted field aborts the object, and the refinements are not called on an
  aborted object. For any other operand the model's default also stands in.
\<close>

definition field_or :: "jsval \<Rightarrow> jsstring \<Rightarrow> rat \<Rightarrow> jsnum" where
  "field_or config k d =
     (case config of
        JObj kvs \<Rightarrow> (case get_prop kvs k of JNum n \<Rightarrow> n | _ \<Rightarrow> Fin d)
      | _ \<Rightarrow> Fin d)"

definition keepAlive_lt_timeout :: "session_constants \<Rightarrow> jsval \<Rightarrow> bool" where
  "keepAlive_lt_timeout D config =
     (let timeout = field_or config timeoutMs (DEFAULT_SESSION_TIMEOUT_MS D);
          keepAlive = field_or config keepAliveIntervalMs (DEFAULT_SESSION_KEEP_ALIVE_INTERVAL_MS D)
      in js_lt keepAlive timeout)"

definition cleanup_le_timeout :: "session_constants \<Rightarrow> jsval \<Rightarrow> bool" where
  "cleanup_le_timeout D config =
     (let timeout = field_or config timeoutMs (DEFAULT_SESSION_TIMEOUT_MS D);
          cleanup = field_or config cleanupIntervalMs (DEFAULT_SESSION_CLEANUP_INTERVAL_MS D)
      in js_le cleanup timeout)"

definition applySessionConfigRefinements :: "session_constants \<Rightarrow> schema \<Rightarrow> schema" where
  "applySessionConfigRefinements D sch =
     z_refine (cleanup_le_timeout D) (Message ''Cleanup interval should not exceed session timeout'')
       [cleanupIntervalMs]
       (z_refine (keepAlive_lt_timeout D) (Message ''Keep-alive interval must be less than session timeout'')
          [keepAliveIntervalMs] sch)"

definition SessionConfigSchema :: "session_constants \<Rightarrow> schema" where
  "SessionConfigSchema D = applySessionConfigRefinements D (SessionConfigBaseSchema D)"

subsection \<open>Session identifier\<close>

definition SessionIdSchema :: schema where
  "SessionIdSchema =
     z_string (Message ''Session ID is required'') (Message ''Session ID must be a string'')
       [StrMin 1 (Message ''Session ID cannot be empty''),
        StrMax 256 (Message ''Session ID is too long (max 256 characters)'')]"

subsection \<open>Validation functions and helpers\<close>

datatype 'a ValidationResult = Success 'a | Failure "ValidationErrorDetail list"

definition parseSessionConfig :: "session_constants \<Rightarrow> jsval \<Rightarrow> ZodError + jsval" where
  "parseSessionConfig D config = parse (SessionConfigSchema D) config"

definition validateSessionConfigSafe :: "session_constants \<Rightarrow> jsval \<Rightarrow> jsval ValidationResult" where
  "validateSessionConfigSafe D config =
     (case safeParse (SessionConfigSchema D) config of
        SafeSuccess d \<Rightarrow> Success d
      | SafeError iss \<Rightarrow>
          Failure (map (\<lambda>issue. \<lparr>path = path issue, message = message issue, code = code issue\<rparr>) iss))"

definition parseSessionId :: "jsval \<Rightarrow> ZodError + jsval" where
  "parseSessionId sessionId = parse SessionIdSchema sessionId"

definition validateSessionIdSafe :: "jsval \<Rightarrow> jsval ValidationResult" where
  "validateSessionIdSafe sessionId =
     (case safeParse SessionIdSchema sessionId of
        SafeSuccess d \<Rightarrow> Success d
      | SafeError iss \<Rightarrow>
          Failure (map (\<lambda>issue. \<lparr>path = path issue, message = message issue, code = code issue\<rparr>) iss))"

definition success :: "'a SafeParseReturn \<Rightarrow> bool" where
  "success r = (case r of SafeSuccess _ \<Rightarrow> True | SafeError _ \<Rightarrow> False)"

definition isValidTimeout :: "session_constants \<Rightarrow> jsval \<Rightarrow> bool" where
  "isValidTimeout D v = success (safeParse (SessionTimeoutSchema D) v)"

definition isValidCleanupInterval :: "session_constants \<Rightarrow> jsval \<Rightarrow> bool" where
  "isValidCleanupInterval D v = success (safeParse (SessionCleanupIntervalSchema D) v)"

definition isValidKeepAliveInterval :: "session_constants \<Rightarrow> jsval \<Rightarrow> bool" where
  "isValidKeepAliveInterval D v = success (safeParse (SessionKeepAliveIntervalSchema D) v)"

definition isValidMaxMissedHeartbeats :: "session_constants \<Rightarrow> jsval \<Rightarrow> bool" where
  "isValidMaxMissedHeartbeats D v = success (safeParse (SessionMaxMissedHeartbeatsSchema D) v)"

definition isValidMaxCount :: "session_constants \<Rightarrow> jsval \<Rightarrow> bool" where
  "isValidMaxCount D v = success (safeParse (SessionMaxCountSchema D) v)"

definition isValidSessionId :: "jsval \<Rightarrow> bool" where
  "isValidSessionId v = success (safeParse SessionIdSchema v)"

section \<open>Framework environment (server/config/env)\<close>

text \<open>
  The built-ins of the JavaScript runtime that the environment schema calls on strings,
  and the version string resolved when the module loads. They are not code of this
  repository and are parameters of the schema: \<open>StringToNumber\<close> is \<open>Number\<close> on
  a string, \<open>parseInt10\<close> is \<open>parseInt(\<cdot>, 10)\<close>, \<open>validURL\<close> says whether
  \<open>new URL\<close> accepts the string.
\<close>

record runtime =
  StringToNumber :: "jsstring \<Rightarrow> jsnum"
  parseInt10 :: "jsstring \<Rightarrow> jsnum"
  toLowerCase :: "jsstring \<Rightarrow> jsstring"
  trim :: "jsstring \<Rightarrow> jsstring"
  validURL :: "jsstring \<Rightarrow> bool"
  VERSION :: jsstring

text \<open>
  \<open>Number(v)\<close>. The environment holds strings and the defaults are numbers; the
  conversion of objects (through \<open>ToPrimitive\<close>) is not modelled and stands as NaN.
\<close>

definition js_Number :: "runtime \<Rightarrow> jsval \<Rightarrow> jsnum" where
  "js_Number R v =
     (case v of
        JNum n \<Rightarrow> n
      | JStr s \<Rightarrow> StringToNumber R s
      | JUndefined \<Rightarrow> NaN
      | JNull \<Rightarrow> Fin 0
      | JBool b \<Rightarrow> Fin (if b then 1 else 0)
      | _ \<Rightarrow> NaN)"

text \<open>\<open>val.split(',')\<close>: the pieces between the commas; the empty string gives one empty piece.\<close>

fun split_on :: "'a \<Rightarrow> 'a list \<Rightarrow> 'a list list" where
  "split_on c [] = [[]]"
| "split_on c (x # xs) =
     (if x = c then [] # split_on c xs
      else (case split_on c xs of y # ys \<Rightarrow> (x # y) # ys | [] \<Rightarrow> [[x]]))"

definition comma_list :: "runtime \<Rightarrow> jsstring \<Rightarrow> jsval" where
  "comma_list R val =
     (let list = filter (\<lambda>h. length h > 0) (map (trim R) (split_on 44 val))
      in if length list > 0 then JArr (map JStr list) else JUndefined)"

definition equals_true :: "runtime \<Rightarrow> jsstring \<Rightarrow> jsval" where
  "equals_true R val = JBool (toLowerCase R val = ustr ''true'')"

definition boolean_flag :: "runtime \<Rightarrow> schema" where
  "boolean_flag R =
     z_default (JBool False)
       (z_or z_boolean
          (z_transform (on_str (equals_true R)) (z_string BuiltinMessage BuiltinMessage [])))"

definition MCP_BIND_HOST :: jsstring where "MCP_BIND_HOST = ustr ''MCP_BIND_HOST''"
definition MCP_PORT :: jsstring where "MCP_PORT = ustr ''MCP_PORT''"
definition MCP_LEGACY_SSE_ENABLED :: jsstring where
  "MCP_LEGACY_SSE_ENABLED = ustr ''MCP_LEGACY_SSE_ENABLED''"
definition MCP_SESSION_TIMEOUT_MS :: jsstring where
  "MCP_SESSION_TIMEOUT_MS = ustr ''MCP_SESSION_TIMEOUT_MS''"

text \<open>
  The schema of \<open>MCP_SESSION_TIMEOUT_MS\<close>:
  \<open>z.coerce.number().min(60000).default(30 * 60 * 1000)\<close>.
\<close>

definition session_timeout_ms :: "runtime \<Rightarrow> schema" where
  "session_timeout_ms R =
     z_default (JNum (Fin (30 * 60 * 1000)))
       (z_coerce_number (js_Number R) [MinCheck 60000 BuiltinMessage])"

definition frameworkEnvShape :: "runtime \<Rightarrow> (jsstring \<times> schema) list" where
  "frameworkEnvShape R =
     [(ustr ''VERSION'',
         z_default (JStr (VERSION R)) (z_string BuiltinMessage BuiltinMessage [])),
      (ustr ''NODE_ENV'',
         z_default (JStr (ustr ''development''))
           (z_enum [ustr ''development'', ustr ''production'', ustr ''test''])),
      (MCP_BIND_HOST,
         z_default (JStr (ustr ''127.0.0.1'')) (z_string BuiltinMessage BuiltinMessage [])),
      (MCP_PORT,
         z_default (JStr (ustr ''3000''))
           (z_refine (\<lambda>val. val \<noteq> JNum NaN) (Message ''Port must be a valid number'') []
              (z_transform (on_str (\<lambda>val. JNum (parseInt10 R val)))
                 (z_string BuiltinMessage BuiltinMessage [])))),
      (ustr ''MCP_TRANSPORT'',
         z_default (JStr (ustr ''http'')) (z_enum [ustr ''stdio'', ustr ''http''])),
      (MCP_LEGACY_SSE_ENABLED, boolean_flag R),
      (ustr ''MCP_ALLOWED_ORIGINS'',
         z_optional (z_transform (on_str (comma_list R))
                       (z_string BuiltinMessage BuiltinMessage []))),
      (ustr ''MCP_ALLOWED_HOSTS'',
         z_optional (z_transform (on_str (comma_list R))
                       (z_string BuiltinMessage BuiltinMessage []))),
      (MCP_SESSION_TIMEOUT_MS, session_timeout_ms R),
      (ustr ''MCP_RATE_LIMIT_WINDOW_MS'',
         z_default (JNum (Fin 900000))
           (z_coerce_number (js_Number R) [MinCheck 1000 BuiltinMessage])),
      (ustr ''MCP_RATE_LIMIT_MAX'',
         z_default (JNum (Fin 1000))
           (z_coerce_number (js_Number R) [MinCheck 100 BuiltinMessage])),
      (ustr ''LOG_LEVEL'',
         z_default (JStr (ustr ''info''))
           (z_enum [ustr ''trace'', ustr ''debug'', ustr ''info'', ustr ''warn'', ustr ''error''])),
      (ustr ''LOG_FORMAT'',
         z_default (JStr (ustr ''text'')) (z_enum [ustr ''text'', ustr ''json''])),
      (ustr ''LOG_DIR'', z_optional (z_string BuiltinMessage BuiltinMessage [])),
      (ustr ''OTEL_ENABLED'', boolean_flag R),
      (ustr ''OTEL_SERVICE_NAME'',
         z_default (JStr (ustr ''mcp-server'')) (z_string BuiltinMessage BuiltinMessage [])),
      (ustr ''OTEL_EXPORTER_OTLP_ENDPOINT'', z_optional (z_string_url (validURL R))),
      (ustr ''OTEL_DEBUG'', boolean_flag R)]"

definition frameworkEnvSchema :: "runtime \<Rightarrow> schema" where
  "frameworkEnvSchema R = z_object strip (frameworkEnvShape R)"

text \<open>
  \<open>process.env\<close> maps names to strings. \<open>parseFrameworkEnv\<close> parses it and throws
  the schema's error when it is not valid.
\<close>

type_synonym process_env = "(jsstring \<times> jsstring) list"

definition env_object :: "process_env \<Rightarrow> jsval" where
  "env_object env = JObj (map (\<lambda>(k, v). (k, JStr v)) env)"

definition parseFrameworkEnv :: "runtime \<Rightarrow> process_env \<Rightarrow> ZodError + jsval" where
  "parseFrameworkEnv R env = parse (frameworkEnvSchema R) (env_object env)"

text \<open>Reading a field of the parsed configuration, \<open>frameworkEnv.NAME\<close>.\<close>

definition field :: "jsval \<Rightarrow> jsstring \<Rightarrow> jsval" where
  "field config k = (case config of JObj kvs \<Rightarrow> get_prop kvs k | _ \<Rightarrow> JUndefined)"

section \<open>HTTP server (server/transport: createExpressApp, startHttpServer)\<close>

subsection \<open>Express routing\<close>

text \<open>
  A middleware either calls \<open>next()\<close>, handing the request (as it left it) to the
  layers after it, or ends the response. \<open>next(err)\<close> and a thrown error end the
  response as well, through the error handler.
\<close>

datatype 'b response = Response (statusCode: nat) (body: 'b)

datatype ('req, 'b) outcome = Next 'req | Respond "'b response"

type_synonym ('req, 'b, 'st) handler = "'req \<Rightarrow> 'st \<Rightarrow> ('req, 'b) outcome \<times> 'st"

datatype layer_id =
    Helmet
  | ExpressJson
  | HealthRouter
  | SseRouter
  | DnsRebindingProtection
  | RateLimiter
  | ValidateProtocolVersion
  | ValidateAcceptHeader
  | ValidateContentType
  | ValidateJsonRpc
  | StreamableHttpRouter

text \<open>
  \<open>app.use(handler)\<close> and \<open>app.use(path, handler)\<close> append a layer; the first has
  no mount path and sees every request.
\<close>

datatype ('req, 'b, 'st) layer =
  Layer (lname: layer_id) (mount: "jsstring option") (run: "('req, 'b, 'st) handler")

datatype step = Passed layer_id | Ended layer_id

datatype 'b reply = Replied "'b response" | Unhandled

text \<open>
  A request walks the layers in the order they were added. A layer whose mount path
  does not match the request is skipped; \<open>mounted\<close> is Express's test of the
  request's path against a mount path. The walk stops at the first layer that ends the
  response; if none does, the request is left to Express's final handler
  (\<open>Unhandled\<close>). The result carries the layers that ran, in order.
\<close>

fun dispatch ::
  "(jsstring \<Rightarrow> 'req \<Rightarrow> bool) \<Rightarrow> ('req, 'b, 'st) layer list \<Rightarrow> 'req \<Rightarrow> 'st
     \<Rightarrow> 'b reply \<times> 'st \<times> step list" where
  "dispatch mounted [] req st = (Unhandled, st, [])"
| "dispatch mounted (l # ls) req st =
     (if (case mount l of None \<Rightarrow> True | Some m \<Rightarrow> mounted m req) then
        (case run l req st of
           (Next req', st') \<Rightarrow>
             (case dispatch mounted ls req' st' of
                (r, st'', tr) \<Rightarrow> (r, st'', Passed (lname l) # tr))
         | (Respond res, st') \<Rightarrow> (Replied res, st', [Ended (lname l)]))
      else dispatch mounted ls req st)"

subsection \<open>The modules the server imports\<close>

text \<open>
  The session manager, the middleware and the routers are imported from modules that
  are not among the sources; they are parameters. The state of the server is the
  session manager (\<open>'sm\<close>) and everything else the handlers keep (\<open>'w\<close>: the rate
  limiter's counters, the legacy streams). A handler that is built without the session
  manager cannot reach it: it reads and writes \<open>'w\<close> only.
  \<open>new_TransportSessionManager\<close>, \<open>closeAll\<close> and \<open>closeAllSseSessions\<close> give
  \<open>None\<close> when the call throws or the promise rejects. \<open>mcpServerFactory\<close> is
  handed on to the two router factories as it is; the factories here are already
  applied to it.
\<close>

record ('req, 'b, 'sm, 'w) modules =
  new_TransportSessionManager :: "jsval \<Rightarrow> 'sm option"
  helmet :: "('req, 'b, 'w) handler"
  express_json :: "('req, 'b, 'w) handler"
  createHealthRouter :: "('req, 'b, 'sm \<times> 'w) handler"
  isSseEnabled :: bool
  createSseRouter :: "('req, 'b, 'w) handler"
  dnsRebindingProtection :: "('req, 'b, 'w) handler"
  createRateLimiter :: "('req, 'b, 'w) handler"
  validateProtocolVersion :: "('req, 'b, 'w) handler"
  validateAcceptHeader :: "('req, 'b, 'w) handler"
  validateContentType :: "('req, 'b, 'w) handler"
  validateJsonRpc :: "('req, 'b, 'w) handler"
  createStreamableHttpRouter :: "('req, 'b, 'sm \<times> 'w) handler"
  closeAll :: "'sm \<Rightarrow> 'sm option"
  closeAllSseSessions :: "'w \<Rightarrow> 'w option"
  listen :: "jsval \<Rightarrow> jsval \<Rightarrow> bool"
  close_event :: "'w \<Rightarrow> bool"

definition without_manager :: "('req, 'b, 'w) handler \<Rightarrow> ('req, 'b, 'sm \<times> 'w) handler" where
  "without_manager h req st =
     (case st of (sm, w) \<Rightarrow> (case h req w of (out, w') \<Rightarrow> (out, (sm, w'))))"

text \<open>
  Modelled from the spec: \<open>createSseRouter\<close> (\<open>./sse/index.js\<close>), the Legacy
  Stream Router. Spec 4.4: only active when a feature flag is enabled; if disabled, every
  route under its surface replies with a fixed "not implemented" status. A request
  outside its surface is passed on. What the enabled router does, its surface and the
  body of the reply are parameters.
\<close>

definition createSseRouter_spec ::
  "bool \<Rightarrow> ('req \<Rightarrow> bool) \<Rightarrow> ('req, 'b, 'w) handler \<Rightarrow> 'b \<Rightarrow> ('req, 'b, 'w) handler" where
  "createSseRouter_spec enabled on_surface when_enabled not_implemented req w =
     (if \<not> on_surface req then (Next req, w)
      else if enabled then when_enabled req w
      else (Respond (Response 501 not_implemented), w))"

text \<open>
  Modelled from the spec: the constructor of \<open>TransportSessionManager\<close>
  (\<open>../session/index.js\<close>). Spec 3: "SessionConfig: immutable configuration,
  validated once at startup", against the table's bounds and cross-rules; spec 6:
  "invalid values abort startup". The constructor validates the configuration it is
  given with \<open>parseSessionConfig\<close>, the repository's validator of that table, and
  throws when the configuration is not valid. What it builds from a valid configuration
  is a parameter.
\<close>

definition new_TransportSessionManager_spec ::
  "session_constants \<Rightarrow> (jsval \<Rightarrow> 'sm) \<Rightarrow> jsval \<Rightarrow> 'sm option" where
  "new_TransportSessionManager_spec D build config =
     (case parseSessionConfig D config of
        Inl e \<Rightarrow> None
      | Inr validated \<Rightarrow> Some (build validated))"

subsection \<open>createExpressApp\<close>

datatype startup_error = ConfigError ZodError | SessionManagerError | ListenError

definition mcp :: jsstring where "mcp = ustr ''/mcp''"

record ('req, 'b, 'sm, 'w) express_app =
  app :: "('req, 'b, 'sm \<times> 'w) layer list"
  sessionManager :: 'sm
  logged :: "string list"

text \<open>
  The argument of \<open>new TransportSessionManager\<close>:
  \<open>{ timeoutMs: frameworkEnv.MCP_SESSION_TIMEOUT_MS }\<close>.
\<close>

definition session_manager_config :: "jsval \<Rightarrow> jsval" where
  "session_manager_config frameworkEnv =
     JObj [(timeoutMs, field frameworkEnv MCP_SESSION_TIMEOUT_MS)]"

text \<open>
  The environment is parsed first and the session manager is built from its
  \<open>MCP_SESSION_TIMEOUT_MS\<close>; either can throw, and then no application is returned.
  The layers follow in the order of the \<open>app.use\<close> calls.
\<close>

definition createExpressApp ::
  "runtime \<Rightarrow> process_env \<Rightarrow> ('req, 'b, 'sm, 'w) modules
     \<Rightarrow> startup_error + ('req, 'b, 'sm, 'w) express_app" where
  "createExpressApp R env M =
     (case parseFrameworkEnv R env of
        Inl e \<Rightarrow> Inl (ConfigError e)
      | Inr frameworkEnv \<Rightarrow>
          (case new_TransportSessionManager M (session_manager_config frameworkEnv) of
             None \<Rightarrow> Inl SessionManagerError
           | Some sm \<Rightarrow>
               Inr \<lparr>app =
                      [Layer Helmet None (without_manager (helmet M)),
                       Layer ExpressJson None (without_manager (express_json M)),
                       Layer HealthRouter None (createHealthRouter M),
                       Layer SseRouter None (without_manager (createSseRouter M)),
                       Layer DnsRebindingProtection (Some mcp)
                         (without_manager (dnsRebindingProtection M)),
                       Layer RateLimiter (Some mcp) (without_manager (createRateLimiter M)),
                       Layer ValidateProtocolVersion (Some mcp)
                         (without_manager (validateProtocolVersion M)),
                       Layer ValidateAcceptHeader (Some mcp)
                         (without_manager (validateAcceptHeader M)),
                       Layer ValidateContentType (Some mcp)
                         (without_manager (validateContentType M)),
                       Layer ValidateJsonRpc (Some mcp) (without_manager (validateJsonRpc M)),
                       Layer StreamableHttpRouter (Some mcp) (createStreamableHttpRouter M)],
                    sessionManager = sm,
                    logged =
                      (if isSseEnabled M
                       then [''Mounting SSE endpoints at /mcp/message, /sse and /sse/message'']
                       else [])\<rparr>))"

subsection \<open>startHttpServer and shutdown\<close>

record HttpServerOptions =
  port :: "jsnum option"
  bindHost :: "jsstring option"

record ('req, 'b, 'sm, 'w) http_server =
  server_app :: "('req, 'b, 'sm \<times> 'w) layer list"
  server_port :: jsval
  server_host :: jsval
  server_manager :: 'sm

text \<open>
  \<open>startHttpServer\<close> builds the application, parses the environment again for the
  port and the host (\<open>options.port ?? frameworkConfig.MCP_PORT\<close>), and listens.
\<close>

definition startHttpServer ::
  "runtime \<Rightarrow> process_env \<Rightarrow> ('req, 'b, 'sm, 'w) modules \<Rightarrow> HttpServerOptions
     \<Rightarrow> startup_error + ('req, 'b, 'sm, 'w) http_server" where
  "startHttpServer R env M options =
     (case createExpressApp R env M of
        Inl e \<Rightarrow> Inl e
      | Inr a \<Rightarrow>
          (case parseFrameworkEnv R env of
             Inl e \<Rightarrow> Inl (ConfigError e)
           | Inr frameworkConfig \<Rightarrow>
               (let p = (case port options of Some n \<Rightarrow> JNum n
                                            | None \<Rightarrow> field frameworkConfig MCP_PORT);
                    h = (case bindHost options of Some s \<Rightarrow> JStr s
                                                | None \<Rightarrow> field frameworkConfig MCP_BIND_HOST)
                in if listen M p h
                   then Inr \<lparr>server_app = app a, server_port = p, server_host = h,
                             server_manager = sessionManager a\<rparr>
                   else Inl ListenError)))"

text \<open>
  The effects of the shutdown procedure, in the order they happen. An awaited call is
  two events: the call, and the promise settling or rejecting. \<open>shutdown\<close> is an
  async function with no \<open>catch\<close>, registered as the signal listener: when an
  awaited promise rejects, nothing after the \<open>await\<close> runs, the rejection is
  handled by nobody, and the runtime ends the process with exit code 1, the listener
  still open. \<open>ServerClose\<close> is the call \<open>server.close(callback)\<close>: the server
  stops listening at once, and the callback runs when the server emits its close event
  (\<open>close_event\<close>: whether it ever does).
\<close>

datatype awaited = SessionCloseAll | SseCloseAll

datatype event =
    LogInfo string
  | Called awaited
  | Settled awaited
  | Rejected awaited
  | ServerClose
  | ListenerClosed
  | ProcessExit nat

record ('sm, 'w) process =
  manager :: 'sm
  world :: 'w
  listening :: bool
  exited :: "nat option"

definition server_close ::
  "('req, 'b, 'sm, 'w) modules \<Rightarrow> ('sm, 'w) process \<Rightarrow> ('sm, 'w) process \<times> event list" where
  "server_close M ps =
     (if close_event M (world ps)
      then (ps\<lparr>listening := False, exited := Some 0\<rparr>,
            [ServerClose, ListenerClosed, LogInfo ''HTTP server closed'', ProcessExit 0])
      else (ps\<lparr>listening := False\<rparr>, [ServerClose]))"

definition shutdown ::
  "('req, 'b, 'sm, 'w) modules \<Rightarrow> ('sm, 'w) process \<Rightarrow> ('sm, 'w) process \<times> event list" where
  "shutdown M ps =
     (let start = [LogInfo ''Shutting down HTTP server...'', Called SessionCloseAll]
      in case closeAll M (manager ps) of
           None \<Rightarrow> (ps\<lparr>exited := Some 1\<rparr>,
                    start @ [Rejected SessionCloseAll, ProcessExit 1])
         | Some sm' \<Rightarrow>
             (let ps1 = ps\<lparr>manager := sm'\<rparr>;
                  tr1 = start @ [Settled SessionCloseAll]
              in if isSseEnabled M then
                   (case closeAllSseSessions M (world ps1) of
                      None \<Rightarrow> (ps1\<lparr>exited := Some 1\<rparr>,
                               tr1 @ [Called SseCloseAll, Rejected SseCloseAll, ProcessExit 1])
                    | Some w' \<Rightarrow>
                        (case server_close M (ps1\<lparr>world := w'\<rparr>) of
                           (ps2, tr2) \<Rightarrow>
                             (ps2, tr1 @ [Called SseCloseAll, Settled SseCloseAll] @ tr2)))
                 else
                   (case server_close M ps1 of (ps2, tr2) \<Rightarrow> (ps2, tr1 @ tr2))))"



section \<open>Instances for evaluating examples\<close>

text \<open>
  Sample values for the constants of \<open>./constants.js\<close>. The timeout default is the
  one the spec's table gives (1,800,000); the spec leaves the other four to the
  implementation, and the values here are samples within their fields' bounds.
\<close>

definition example_constants :: session_constants where
  "example_constants =
     \<lparr>DEFAULT_SESSION_TIMEOUT_MS = 1800000,
      DEFAULT_SESSION_CLEANUP_INTERVAL_MS = 60000,
      DEFAULT_SESSION_KEEP_ALIVE_INTERVAL_MS = 30000,
      DEFAULT_SESSION_MAX_MISSED_HEARTBEATS = 3,
      DEFAULT_SESSION_MAX_COUNT = 100\<rparr>"

text \<open>
  A runtime for the examples. It agrees with JavaScript where the examples use it: a
  non-empty string of ASCII decimal digits whose value is below \<open>2^53\<close> converts to
  that value exactly, by \<open>Number\<close> and by \<open>parseInt\<close>; \<open>Number('')\<close> is 0;
  ASCII letters are lower-cased. Elsewhere (other numeric literals, values that need
  rounding, non-ASCII letters, white space other than ASCII, URLs) it is a stand-in.
\<close>

definition digit_of :: "16 word \<Rightarrow> rat option" where
  "digit_of c = (if 48 \<le> c \<and> c \<le> 57 then Some (of_nat (unat (c - 48))) else None)"

fun digits_value :: "rat \<Rightarrow> jsstring \<Rightarrow> rat option" where
  "digits_value acc [] = Some acc"
| "digits_value acc (c # cs) =
     (case digit_of c of None \<Rightarrow> None | Some d \<Rightarrow> digits_value (10 * acc + d) cs)"

definition decimal_digits :: "jsstring \<Rightarrow> jsnum" where
  "decimal_digits s =
     (case digits_value 0 s of
        Some n \<Rightarrow> (if s \<noteq> [] \<and> n < 2 ^ 53 then Fin n else NaN)
      | None \<Rightarrow> NaN)"

definition ascii_lower :: "16 word \<Rightarrow> 16 word" where
  "ascii_lower c = (if 65 \<le> c \<and> c \<le> 90 then c + 32 else c)"

definition ascii_space :: "16 word \<Rightarrow> bool" where
  "ascii_space c = (c = 32 \<or> (9 \<le> c \<and> c \<le> 13))"

definition example_runtime :: runtime where
  "example_runtime =
     \<lparr>StringToNumber = (\<lambda>s. if s = [] then Fin 0 else decimal_digits s),
      parseInt10 = decimal_digits,
      toLowerCase = map ascii_lower,
      trim = (\<lambda>s. rev (dropWhile ascii_space (rev (dropWhile ascii_space s)))),
      validURL = (\<lambda>s. False),
      VERSION = ustr ''unknown''\<rparr>"

text \<open>
  Modules for the examples, on requests that are just a path: every middleware passes
  the request on, the health router answers \<open>/health\<close>, the legacy router is the
  spec's with the flag off on \<open>/sse\<close> and \<open>/sse/message\<close>, the streamable router
  answers and counts a session, the session manager's constructor is the spec's (it
  validates its configuration), every close succeeds. \<open>path_under\<close> is the mount test on such
  requests: the mount path followed by nothing or by a slash.
\<close>

definition path_under :: "jsstring \<Rightarrow> jsstring \<Rightarrow> bool" where
  "path_under m req =
     (take (length m) req = m \<and> (length req = length m \<or> req ! length m = 47))"

definition example_modules :: "(jsstring, jsstring, nat, nat) modules" where
  "example_modules =
     \<lparr>new_TransportSessionManager =
        new_TransportSessionManager_spec example_constants (\<lambda>validated. 0),
      helmet = (\<lambda>req w. (Next req, w)),
      express_json = (\<lambda>req w. (Next req, w)),
      createHealthRouter =
        (\<lambda>req st. if req = ustr ''/health'' then (Respond (Response 200 (ustr ''ok'')), st)
                   else (Next req, st)),
      isSseEnabled = False,
      createSseRouter =
        createSseRouter_spec False (\<lambda>req. req = ustr ''/sse'' \<or> req = ustr ''/sse/message'')
          (\<lambda>req w. (Next req, w)) (ustr ''Not Implemented''),
      dnsRebindingProtection = (\<lambda>req w. (Next req, w)),
      createRateLimiter = (\<lambda>req w. (Next req, Suc w)),
      validateProtocolVersion = (\<lambda>req w. (Next req, w)),
      validateAcceptHeader = (\<lambda>req w. (Next req, w)),
      validateContentType = (\<lambda>req w. (Next req, w)),
      validateJsonRpc = (\<lambda>req w. (Next req, w)),
      createStreamableHttpRouter =
        (\<lambda>req st. case st of (sm, w) \<Rightarrow> (Respond (Response 200 (ustr ''ok'')), (Suc sm, w))),
      closeAll = (\<lambda>sm. Some 0),
      closeAllSseSessions = (\<lambda>w. Some w),
      listen = (\<lambda>p h. True),
      close_event = (\<lambda>w. True)\<rparr>"

section \<open>Vocabulary of the claims and of their proofs\<close>

text \<open>
  An integer within inclusive bounds, as a value; a field that is absent
  (\<open>undefined\<close>) or such an integer; the effective value of a numeric field (the
  provided number, or the default when the field is omitted); the errors a safe
  validation reports (none when it succeeds); an environment variable as the schema
  sees it (\<open>undefined\<close> when unset); the number the schema of
  \<open>MCP_SESSION_TIMEOUT_MS\<close> reads from it (the variable converted, or the default).
\<close>

definition env_var :: "process_env \<Rightarrow> jsstring \<Rightarrow> jsval" where
  "env_var env k = field (env_object env) k"

definition timeout_read :: "runtime \<Rightarrow> jsval \<Rightarrow> jsnum" where
  "timeout_read R v = js_Number R (if v = JUndefined then JNum (Fin (30 * 60 * 1000)) else v)"

definition integer_between :: "rat \<Rightarrow> rat \<Rightarrow> jsval \<Rightarrow> bool" where
  "integer_between lo hi v =
     (\<exists>i::int. v = JNum (Fin (of_int i)) \<and> lo \<le> of_int i \<and> of_int i \<le> hi)"

definition absent_or_between :: "rat \<Rightarrow> rat \<Rightarrow> jsval \<Rightarrow> bool" where
  "absent_or_between lo hi v = (v = JUndefined \<or> integer_between lo hi v)"

definition effective :: "(jsstring \<times> jsval) list \<Rightarrow> jsstring \<Rightarrow> rat \<Rightarrow> rat" where
  "effective kvs k d = (case get_prop kvs k of JNum (Fin q) \<Rightarrow> q | _ \<Rightarrow> d)"

definition errors :: "'a ValidationResult \<Rightarrow> ValidationErrorDetail list" where
  "errors r = (case r of Success _ \<Rightarrow> [] | Failure errs \<Rightarrow> errs)"





text \<open>The object a schema writes for the fields it kept (the merge of \<open>z.object\<close>).\<close>

definition merged ::
  "(jsstring \<times> schema) list \<Rightarrow> jsstring list \<Rightarrow> (jsstring \<times> jsval) list
     \<Rightarrow> (jsstring \<times> jsval) list" where
  "merged shape p kvs =
     map (\<lambda>(k, r, a). (k, pvalue r))
       (filter (\<lambda>(k, r, a). pvalue r \<noteq> JUndefined \<or> a) (parse_pairs shape p kvs))"

section \<open>Facts about the schema library and the session-config schema\<close>

lemmas SESSION_CONFIG_LIMITS =
  MIN_TIMEOUT_MS_def MAX_TIMEOUT_MS_def MIN_CLEANUP_INTERVAL_MS_def
  MAX_CLEANUP_INTERVAL_MS_def MIN_KEEP_ALIVE_INTERVAL_MS_def MAX_KEEP_ALIVE_INTERVAL_MS_def
  MIN_MISSED_HEARTBEATS_def MAX_MISSED_HEARTBEATS_def MIN_SESSION_COUNT_def
  MAX_SESSION_COUNT_def

lemmas config_keys =
  timeoutMs_def cleanupIntervalMs_def keepAliveIntervalMs_def maxMissedHeartbeats_def
  maxCount_def

lemma isInteger_iff: "isInteger n \<longleftrightarrow> (\<exists>i::int. n = Fin (of_int i))"
  by (cases n) auto

lemma config_keys_distinct:
  "distinct [timeoutMs, cleanupIntervalMs, keepAliveIntervalMs, maxMissedHeartbeats, maxCount]"
  by (simp add: config_keys ustr_def)

lemma run_num_checks_valid_iff:
  "status (run_num_checks [IntCheck a, MinCheck lo b, MaxCheck hi c] p n) = Valid
     \<longleftrightarrow> integer_between lo hi (JNum n)"
  by (cases n) (auto simp: run_num_checks_def integer_between_def isInteger_iff js_gt_def)

lemma z_number_valid_iff:
  "status (z_number re ite [IntCheck a, MinCheck lo b, MaxCheck hi c] p v) = Valid
     \<longleftrightarrow> integer_between lo hi v"
proof (cases v)
  case (JNum n)
  show ?thesis
  proof (cases "n = NaN")
    case True
    with JNum show ?thesis by (simp add: z_number_def INVALID_def integer_between_def)
  next
    case False
    with JNum show ?thesis
      using run_num_checks_valid_iff[of a lo b hi c p n] by (simp add: z_number_def)
  qed
qed (simp_all add: z_number_def INVALID_def integer_between_def)

lemma z_number_value:
  "status (z_number re ite cs p v) \<noteq> Aborted \<Longrightarrow> pvalue (z_number re ite cs p v) = v"
  by (cases v) (auto simp: z_number_def INVALID_def run_num_checks_def Let_def split: if_splits)

lemma z_number_issues_iff:
  "issues (z_number re ite cs p v) = [] \<longleftrightarrow> status (z_number re ite cs p v) = Valid"
  by (cases v) (auto simp: z_number_def INVALID_def run_num_checks_def Let_def)

lemma num_check_issue_path: "e \<in> set (num_check_issue p n c) \<Longrightarrow> path e = p"
  by (cases c) (auto simp: mk_issue_def split: if_splits)

lemma z_number_issue_path: "e \<in> set (issues (z_number re ite cs p v)) \<Longrightarrow> path e = p"
  by (cases v) (auto simp: z_number_def INVALID_def run_num_checks_def Let_def mk_issue_def
      dest: num_check_issue_path split: if_splits)



lemma z_object_issues:
  "issues (z_object mode shape p (JObj kvs)) =
     concat (map (\<lambda>(k, sch). issues (sch (p @ [k]) (get_prop kvs k))) shape)
     @ (if mode = strict \<and> extra_keys shape kvs \<noteq> []
        then [mk_issue p unrecognized_keys BuiltinMessage] else [])"
proof -
  have "map (\<lambda>(k, r, a). issues r) (parse_pairs shape p kvs)
        = map (\<lambda>(k, sch). issues (sch (p @ [k]) (get_prop kvs k))) shape"
    by (simp add: parse_pairs_def case_prod_unfold)
  then show ?thesis
    by (simp add: z_object_def mergeObjectSync_def INVALID_def Let_def)
qed

lemma bex_parse_pairs:
  "(\<exists>(k, r, a) \<in> set (parse_pairs shape p kvs). status r = s) \<longleftrightarrow>
   (\<exists>(k, sch) \<in> set shape. status (sch (p @ [k]) (get_prop kvs k)) = s)"
  by (force simp: parse_pairs_def)

lemma status_cases: "s \<noteq> Aborted \<Longrightarrow> s \<noteq> Dirty \<Longrightarrow> s = Valid"
  by (cases s) auto

lemma z_object_status_valid:
  "status (z_object mode shape p (JObj kvs)) = Valid \<longleftrightarrow>
     (\<forall>(k, sch) \<in> set shape. status (sch (p @ [k]) (get_prop kvs k)) = Valid)
     \<and> \<not> (mode = strict \<and> extra_keys shape kvs \<noteq> [])"
proof -
  have "status (z_object mode shape p (JObj kvs)) = Valid \<longleftrightarrow>
        \<not> (\<exists>(k, r, a) \<in> set (parse_pairs shape p kvs). status r = Aborted)
        \<and> \<not> (\<exists>(k, r, a) \<in> set (parse_pairs shape p kvs). status r = Dirty)
        \<and> \<not> (mode = strict \<and> extra_keys shape kvs \<noteq> [])"
    unfolding z_object_def mergeObjectSync_def INVALID_def Let_def by simp
  also have "\<dots> \<longleftrightarrow>
        (\<forall>(k, sch) \<in> set shape. status (sch (p @ [k]) (get_prop kvs k)) = Valid)
        \<and> \<not> (mode = strict \<and> extra_keys shape kvs \<noteq> [])"
    unfolding bex_parse_pairs by (force intro: status_cases)
  finally show ?thesis .
qed

lemma z_object_status_aborted:
  "status (z_object mode shape p (JObj kvs)) = Aborted \<longleftrightarrow>
     (\<exists>(k, sch) \<in> set shape. status (sch (p @ [k]) (get_prop kvs k)) = Aborted)"
proof -
  have "status (z_object mode shape p (JObj kvs)) = Aborted \<longleftrightarrow>
        (\<exists>(k, r, a) \<in> set (parse_pairs shape p kvs). status r = Aborted)"
    unfolding z_object_def mergeObjectSync_def INVALID_def Let_def by simp
  then show ?thesis unfolding bex_parse_pairs .
qed

lemma z_object_not_object:
  "(\<And>kvs. v \<noteq> JObj kvs) \<Longrightarrow> z_object mode shape p v = INVALID [mk_issue p invalid_type BuiltinMessage]"
  by (cases v) (auto simp: z_object_def)

lemma z_object_value:
  "status (z_object mode shape p (JObj kvs)) \<noteq> Aborted \<Longrightarrow>
   pvalue (z_object mode shape p (JObj kvs)) = JObj (merged shape p kvs)"
  unfolding z_object_def mergeObjectSync_def INVALID_def Let_def merged_def
  by (simp split: if_splits)

lemma merged_Cons:
  "merged ((k, sch) # shape) p kvs =
     (let r = sch (p @ [k]) (get_prop kvs k)
      in if pvalue r \<noteq> JUndefined \<or> has_prop kvs k then (k, pvalue r) # merged shape p kvs
         else merged shape p kvs)"
  by (simp add: merged_def parse_pairs_def Let_def)

lemma get_prop_Cons: "get_prop ((k, v) # kvs) k' = (if k' = k then v else get_prop kvs k')"
  by (simp add: get_prop_def)

lemma get_prop_merged_absent:
  "k \<notin> fst ` set shape \<Longrightarrow> get_prop (merged shape p kvs) k = JUndefined"
proof (induction shape)
  case Nil
  then show ?case by (simp add: merged_def parse_pairs_def get_prop_def)
next
  case (Cons a shape)
  obtain k0 sch0 where a: "a = (k0, sch0)" by (cases a)
  from Cons show ?case by (auto simp: a merged_Cons get_prop_Cons Let_def)
qed

lemma get_prop_merged:
  "distinct (map fst shape) \<Longrightarrow>
   get_prop (merged shape p kvs) k =
     (case map_of shape k of None \<Rightarrow> JUndefined
      | Some sch \<Rightarrow> pvalue (sch (p @ [k]) (get_prop kvs k)))"
proof (induction shape)
  case Nil
  then show ?case by (simp add: merged_def parse_pairs_def get_prop_def)
next
  case (Cons a shape)
  obtain k0 sch0 where a: "a = (k0, sch0)" by (cases a)
  show ?case
  proof (cases "k = k0")
    case True
    have "k0 \<notin> fst ` set shape" using Cons.prems by (simp add: a)
    then have "get_prop (merged shape p kvs) k0 = JUndefined"
      by (rule get_prop_merged_absent)
    then show ?thesis using True by (auto simp: a merged_Cons get_prop_Cons Let_def)
  next
    case False
    then show ?thesis using Cons by (auto simp: a merged_Cons get_prop_Cons Let_def)
  qed
qed

lemma issues_z_refine:
  "issues (z_refine c m sub inner p v) =
     issues (inner p v)
     @ (if status (inner p v) \<noteq> Aborted \<and> \<not> c (pvalue (inner p v))
        then [mk_issue (p @ sub) custom m] else [])"
  by (simp add: z_refine_def Let_def INVALID_def)

lemma status_z_refine_valid:
  "status (z_refine c m sub inner p v) = Valid \<longleftrightarrow>
     status (inner p v) = Valid \<and> c (pvalue (inner p v))"
  by (auto simp: z_refine_def Let_def INVALID_def)

lemma status_z_refine_aborted:
  "status (z_refine c m sub inner p v) = Aborted \<longleftrightarrow> status (inner p v) = Aborted"
  by (auto simp: z_refine_def Let_def INVALID_def)

lemma pvalue_z_refine:
  "status (inner p v) \<noteq> Aborted \<Longrightarrow> pvalue (z_refine c m sub inner p v) = pvalue (inner p v)"
  by (auto simp: z_refine_def Let_def INVALID_def)



lemma opt_number:
  "z_optional (z_default d (z_number re ite cs)) p v =
     (if v = JUndefined then OK JUndefined else z_number re ite cs p v)"
  by (simp add: z_optional_def z_default_def)

lemma opt_number_valid_iff:
  "status (z_optional (z_default d (z_number re ite [IntCheck a, MinCheck lo b, MaxCheck hi c])) p v)
     = Valid \<longleftrightarrow> absent_or_between lo hi v"
  by (simp add: opt_number z_number_valid_iff absent_or_between_def OK_def)

lemma opt_number_value:
  "status (z_optional (z_default d (z_number re ite cs)) p v) \<noteq> Aborted \<Longrightarrow>
   pvalue (z_optional (z_default d (z_number re ite cs)) p v) = v"
  by (auto simp: opt_number OK_def z_number_value split: if_splits)

lemma opt_number_issues_iff:
  "issues (z_optional (z_default d (z_number re ite cs)) p v) = [] \<longleftrightarrow>
   status (z_optional (z_default d (z_number re ite cs)) p v) = Valid"
  by (simp add: opt_number OK_def z_number_issues_iff)

lemma opt_number_issue_path:
  "e \<in> set (issues (z_optional (z_default d (z_number re ite cs)) p v)) \<Longrightarrow> path e = p"
  by (auto simp: opt_number OK_def dest: z_number_issue_path split: if_splits)

lemmas field_schema_defs =
  SessionTimeoutSchema_def SessionCleanupIntervalSchema_def SessionKeepAliveIntervalSchema_def
  SessionMaxMissedHeartbeatsSchema_def SessionMaxCountSchema_def

lemma extra_keys_Nil_iff:
  "extra_keys shape kvs = [] \<longleftrightarrow> fst ` set kvs \<subseteq> fst ` set shape"
  by (auto simp: extra_keys_def filter_empty_conv)

lemma shape_keys:
  "fst ` set (SessionConfigShape D) =
     {timeoutMs, cleanupIntervalMs, keepAliveIntervalMs, maxMissedHeartbeats, maxCount}"
  by (simp add: SessionConfigShape_def)

lemma base_issues:
  "issues (SessionConfigBaseSchema D p (JObj kvs)) =
     issues (z_optional (SessionTimeoutSchema D) (p @ [timeoutMs]) (get_prop kvs timeoutMs))
   @ issues (z_optional (SessionCleanupIntervalSchema D) (p @ [cleanupIntervalMs]) (get_prop kvs cleanupIntervalMs))
   @ issues (z_optional (SessionKeepAliveIntervalSchema D) (p @ [keepAliveIntervalMs]) (get_prop kvs keepAliveIntervalMs))
   @ issues (z_optional (SessionMaxMissedHeartbeatsSchema D) (p @ [maxMissedHeartbeats]) (get_prop kvs maxMissedHeartbeats))
   @ issues (z_optional (SessionMaxCountSchema D) (p @ [maxCount]) (get_prop kvs maxCount))
   @ (if extra_keys (SessionConfigShape D) kvs \<noteq> []
      then [mk_issue p unrecognized_keys BuiltinMessage] else [])"
  unfolding SessionConfigBaseSchema_def z_object_issues by (simp add: SessionConfigShape_def)

lemma base_valid_iff:
  "status (SessionConfigBaseSchema D p (JObj kvs)) = Valid \<longleftrightarrow>
     absent_or_between MIN_TIMEOUT_MS MAX_TIMEOUT_MS (get_prop kvs timeoutMs)
   \<and> absent_or_between MIN_CLEANUP_INTERVAL_MS MAX_CLEANUP_INTERVAL_MS (get_prop kvs cleanupIntervalMs)
   \<and> absent_or_between MIN_KEEP_ALIVE_INTERVAL_MS MAX_KEEP_ALIVE_INTERVAL_MS (get_prop kvs keepAliveIntervalMs)
   \<and> absent_or_between MIN_MISSED_HEARTBEATS MAX_MISSED_HEARTBEATS (get_prop kvs maxMissedHeartbeats)
   \<and> absent_or_between MIN_SESSION_COUNT MAX_SESSION_COUNT (get_prop kvs maxCount)
   \<and> fst ` set kvs \<subseteq> {timeoutMs, cleanupIntervalMs, keepAliveIntervalMs, maxMissedHeartbeats, maxCount}"
  unfolding SessionConfigBaseSchema_def z_object_status_valid extra_keys_Nil_iff shape_keys
  by (simp add: SessionConfigShape_def field_schema_defs opt_number_valid_iff)

lemma base_field:
  assumes "status (SessionConfigBaseSchema D p (JObj kvs)) \<noteq> Aborted"
    and "k \<in> {timeoutMs, cleanupIntervalMs, keepAliveIntervalMs, maxMissedHeartbeats, maxCount}"
  shows "get_prop (merged (SessionConfigShape D) p kvs) k = get_prop kvs k"
proof -
  have d: "distinct (map fst (SessionConfigShape D))"
    using config_keys_distinct by (simp add: SessionConfigShape_def)
  have na: "\<forall>(k, sch) \<in> set (SessionConfigShape D). status (sch (p @ [k]) (get_prop kvs k)) \<noteq> Aborted"
    using assms(1) unfolding SessionConfigBaseSchema_def z_object_status_aborted by blast
  from assms(2) config_keys_distinct na show ?thesis
    unfolding get_prop_merged[OF d]
    by (auto simp: SessionConfigShape_def field_schema_defs opt_number_value)
qed



lemma record_copy: "map (\<lambda>issue. \<lparr>path = path issue, message = message issue, code = code issue\<rparr>) iss = iss"
  by (induction iss) auto

lemma field_issues_iff:
  "issues (z_optional (SessionTimeoutSchema D) p v) = [] \<longleftrightarrow> absent_or_between MIN_TIMEOUT_MS MAX_TIMEOUT_MS v"
  "issues (z_optional (SessionCleanupIntervalSchema D) p v) = [] \<longleftrightarrow> absent_or_between MIN_CLEANUP_INTERVAL_MS MAX_CLEANUP_INTERVAL_MS v"
  "issues (z_optional (SessionKeepAliveIntervalSchema D) p v) = [] \<longleftrightarrow> absent_or_between MIN_KEEP_ALIVE_INTERVAL_MS MAX_KEEP_ALIVE_INTERVAL_MS v"
  "issues (z_optional (SessionMaxMissedHeartbeatsSchema D) p v) = [] \<longleftrightarrow> absent_or_between MIN_MISSED_HEARTBEATS MAX_MISSED_HEARTBEATS v"
  "issues (z_optional (SessionMaxCountSchema D) p v) = [] \<longleftrightarrow> absent_or_between MIN_SESSION_COUNT MAX_SESSION_COUNT v"
  by (simp_all add: field_schema_defs opt_number_issues_iff opt_number_valid_iff)

lemma field_issue_paths:
  "e \<in> set (issues (z_optional (SessionTimeoutSchema D) p v)) \<Longrightarrow> path e = p"
  "e \<in> set (issues (z_optional (SessionCleanupIntervalSchema D) p v)) \<Longrightarrow> path e = p"
  "e \<in> set (issues (z_optional (SessionKeepAliveIntervalSchema D) p v)) \<Longrightarrow> path e = p"
  "e \<in> set (issues (z_optional (SessionMaxMissedHeartbeatsSchema D) p v)) \<Longrightarrow> path e = p"
  "e \<in> set (issues (z_optional (SessionMaxCountSchema D) p v)) \<Longrightarrow> path e = p"
  by (auto simp: field_schema_defs dest: opt_number_issue_path)

lemma schema_issues:
  "issues (SessionConfigSchema D p v) =
     issues (SessionConfigBaseSchema D p v)
     @ (if status (SessionConfigBaseSchema D p v) \<noteq> Aborted
            \<and> \<not> keepAlive_lt_timeout D (pvalue (SessionConfigBaseSchema D p v))
        then [mk_issue (p @ [keepAliveIntervalMs]) custom
                (Message ''Keep-alive interval must be less than session timeout'')] else [])
     @ (if status (SessionConfigBaseSchema D p v) \<noteq> Aborted
            \<and> \<not> cleanup_le_timeout D (pvalue (SessionConfigBaseSchema D p v))
        then [mk_issue (p @ [cleanupIntervalMs]) custom
                (Message ''Cleanup interval should not exceed session timeout'')] else [])"
proof (cases "status (SessionConfigBaseSchema D p v) = Aborted")
  case True
  then show ?thesis
    by (simp add: SessionConfigSchema_def applySessionConfigRefinements_def issues_z_refine
        status_z_refine_aborted)
next
  case False
  then show ?thesis
    by (simp add: SessionConfigSchema_def applySessionConfigRefinements_def issues_z_refine
        status_z_refine_aborted pvalue_z_refine)
qed

lemma schema_valid_iff:
  "status (SessionConfigSchema D p v) = Valid \<longleftrightarrow>
     status (SessionConfigBaseSchema D p v) = Valid
     \<and> keepAlive_lt_timeout D (pvalue (SessionConfigBaseSchema D p v))
     \<and> cleanup_le_timeout D (pvalue (SessionConfigBaseSchema D p v))"
proof (cases "status (SessionConfigBaseSchema D p v) = Aborted")
  case True
  then show ?thesis
    by (simp add: SessionConfigSchema_def applySessionConfigRefinements_def status_z_refine_valid)
next
  case False
  then show ?thesis
    by (auto simp add: SessionConfigSchema_def applySessionConfigRefinements_def
        status_z_refine_valid pvalue_z_refine)
qed

lemma safe_errors:
  "errors (validateSessionConfigSafe D v) =
     (if status (SessionConfigSchema D [] v) = Valid then [] else issues (SessionConfigSchema D [] v))"
  by (simp add: errors_def validateSessionConfigSafe_def safeParse_def Let_def record_copy)

lemma schema_issues_iff:
  "issues (SessionConfigSchema D p (JObj kvs)) = [] \<longleftrightarrow> status (SessionConfigSchema D p (JObj kvs)) = Valid"
proof -
  have b: "issues (SessionConfigBaseSchema D p (JObj kvs)) = [] \<longleftrightarrow>
           status (SessionConfigBaseSchema D p (JObj kvs)) = Valid"
    unfolding base_valid_iff base_issues
    by (simp add: field_issues_iff extra_keys_Nil_iff shape_keys)
  show ?thesis unfolding schema_issues schema_valid_iff using b by auto
qed

lemma timeout_path_issue_iff:
  "(\<exists>e \<in> set (issues (SessionConfigSchema D [] (JObj kvs))). path e = [timeoutMs]) \<longleftrightarrow>
   \<not> absent_or_between MIN_TIMEOUT_MS MAX_TIMEOUT_MS (get_prop kvs timeoutMs)"
proof -
  let ?t = "issues (z_optional (SessionTimeoutSchema D) [timeoutMs] (get_prop kvs timeoutMs))"
  have other: "path e \<noteq> [timeoutMs]"
    if "e \<in> set (issues (SessionConfigSchema D [] (JObj kvs)))" "e \<notin> set ?t" for e
    using that config_keys_distinct unfolding schema_issues base_issues
    by (auto simp: mk_issue_def dest: field_issue_paths split: if_splits)
  have mine: "set ?t \<subseteq> set (issues (SessionConfigSchema D [] (JObj kvs)))"
    unfolding schema_issues base_issues by auto
  have "(\<exists>e \<in> set (issues (SessionConfigSchema D [] (JObj kvs))). path e = [timeoutMs])
        \<longleftrightarrow> ?t \<noteq> []"
  proof
    assume "\<exists>e \<in> set (issues (SessionConfigSchema D [] (JObj kvs))). path e = [timeoutMs]"
    then show "?t \<noteq> []" using other by fastforce
  next
    assume "?t \<noteq> []"
    then obtain e where e: "e \<in> set ?t" by (cases ?t) auto
    then have "path e = [timeoutMs]" by (auto dest: field_issue_paths)
    with e mine show "\<exists>e \<in> set (issues (SessionConfigSchema D [] (JObj kvs))). path e = [timeoutMs]"
      by blast
  qed
  then show ?thesis by (simp add: field_issues_iff)
qed

section \<open>Session identifier\<close>

lemma z_string_valid_iff:
  "status (z_string re ite [StrMin lo a, StrMax hi b] p v) = Valid
     \<longleftrightarrow> (\<exists>s. v = JStr s \<and> lo \<le> length s \<and> length s \<le> hi)"
  by (cases v) (auto simp: z_string_def INVALID_def Let_def)

text \<open>
  C4. For every input value, session-identifier validation (\<open>isValidSessionId\<close>,
  \<open>parseSessionId\<close>, \<open>validateSessionIdSafe\<close>) accepts the value if and only if
  it is a string whose length is between 1 and 256 inclusive; the empty string, longer
  strings and non-strings are rejected. The length is JavaScript's \<open>.length\<close>, the
  number of UTF-16 code units.
\<close>

theorem C4_session_id_length:
  "(isValidSessionId v \<longleftrightarrow> (\<exists>s. v = JStr s \<and> 1 \<le> length s \<and> length s \<le> 256))
   \<and> ((\<exists>d. parseSessionId v = Inr d) \<longleftrightarrow> (\<exists>s. v = JStr s \<and> 1 \<le> length s \<and> length s \<le> 256))
   \<and> ((\<exists>d. validateSessionIdSafe v = Success d)
        \<longleftrightarrow> (\<exists>s. v = JStr s \<and> 1 \<le> length s \<and> length s \<le> 256))"
proof -
  have "status (SessionIdSchema [] v) = Valid
        \<longleftrightarrow> (\<exists>s. v = JStr s \<and> 1 \<le> length s \<and> length s \<le> 256)"
    unfolding SessionIdSchema_def by (rule z_string_valid_iff)
  then show ?thesis
    by (auto simp: isValidSessionId_def parseSessionId_def validateSessionIdSafe_def success_def
        safeParse_def parse_def Let_def split: if_splits)
qed

section \<open>Session timeout bounds\<close>

text \<open>
  C1. A provided \<open>timeoutMs\<close> (any value but \<open>undefined\<close>) is accepted if and
  only if it is an integer from 60,000 to 157,680,000,000 inclusive: by the field
  schema on its own (\<open>isValidTimeout\<close>), and inside a configuration object, where
  \<open>validateSessionConfigSafe\<close> reports an error at the path \<open>timeoutMs\<close> exactly
  for the values outside that range, and \<open>parseSessionConfig\<close> throws for them.
\<close>

theorem C1_timeout_range:
  assumes "v \<noteq> JUndefined"
  shows "(isValidTimeout D v
            \<longleftrightarrow> (\<exists>i::int. v = JNum (Fin (of_int i)) \<and> 60000 \<le> i \<and> i \<le> 157680000000))
       \<and> (get_prop kvs timeoutMs = v \<longrightarrow>
            ((\<exists>e \<in> set (errors (validateSessionConfigSafe D (JObj kvs))). path e = [timeoutMs])
               \<longleftrightarrow> \<not> (\<exists>i::int. v = JNum (Fin (of_int i)) \<and> 60000 \<le> i \<and> i \<le> 157680000000))
          \<and> (\<not> (\<exists>i::int. v = JNum (Fin (of_int i)) \<and> 60000 \<le> i \<and> i \<le> 157680000000)
               \<longrightarrow> (\<exists>e. parseSessionConfig D (JObj kvs) = Inl e)))"
proof -
  let ?R = "\<exists>i::int. v = JNum (Fin (of_int i)) \<and> 60000 \<le> i \<and> i \<le> 157680000000"
  have R: "integer_between MIN_TIMEOUT_MS MAX_TIMEOUT_MS v \<longleftrightarrow> ?R"
    unfolding integer_between_def MIN_TIMEOUT_MS_def MAX_TIMEOUT_MS_def
    by simp
  have ok: "absent_or_between MIN_TIMEOUT_MS MAX_TIMEOUT_MS v \<longleftrightarrow> ?R"
    using assms R by (simp add: absent_or_between_def)
  have one: "isValidTimeout D v \<longleftrightarrow> ?R"
    using assms R
    by (simp add: isValidTimeout_def success_def safeParse_def Let_def SessionTimeoutSchema_def
        z_default_def z_number_valid_iff)
  have two: "(\<exists>e \<in> set (errors (validateSessionConfigSafe D (JObj kvs))). path e = [timeoutMs])
               \<longleftrightarrow> \<not> ?R" if "get_prop kvs timeoutMs = v"
  proof -
    have "(\<exists>e \<in> set (issues (SessionConfigSchema D [] (JObj kvs))). path e = [timeoutMs]) \<longleftrightarrow> \<not> ?R"
      using timeout_path_issue_iff[of D kvs] ok that by simp
    moreover have "issues (SessionConfigSchema D [] (JObj kvs)) = []"
      if "status (SessionConfigSchema D [] (JObj kvs)) = Valid"
      using that schema_issues_iff by blast
    ultimately show ?thesis unfolding safe_errors by auto
  qed
  have three: "\<exists>e. parseSessionConfig D (JObj kvs) = Inl e"
    if "get_prop kvs timeoutMs = v" "\<not> ?R"
  proof -
    have "status (SessionConfigSchema D [] (JObj kvs)) \<noteq> Valid"
      using that ok unfolding schema_valid_iff base_valid_iff by simp
    then show ?thesis
      by (simp add: parseSessionConfig_def parse_def safeParse_def Let_def)
  qed
  from one two three show ?thesis by blast
qed

theorem C1_timeout_range_witness:
  "JNum (Fin 60000) \<noteq> JUndefined
   \<and> isValidTimeout example_constants (JNum (Fin 60000))
   \<and> \<not> (\<exists>e \<in> set (errors (validateSessionConfigSafe example_constants
                                (JObj [(timeoutMs, JNum (Fin 60000))]))).
            path e = [timeoutMs])
   \<and> \<not> isValidTimeout example_constants (JNum (Fin 59999))
   \<and> (\<exists>e. parseSessionConfig example_constants (JObj [(timeoutMs, JNum (Fin 59999))]) = Inl e)"
proof -
  have h: "JNum (Fin 60000) \<noteq> JUndefined" and h': "JNum (Fin 59999) \<noteq> JUndefined"
    by simp_all
  have r: "\<exists>i::int. JNum (Fin 60000) = JNum (Fin (of_int i)) \<and> 60000 \<le> i \<and> i \<le> 157680000000"
    by (rule exI[of _ 60000]) simp
  have r': "\<not> (\<exists>i::int. JNum (Fin 59999) = JNum (Fin (of_int i)) \<and> 60000 \<le> i
                  \<and> i \<le> 157680000000)"
    by auto
  have g: "get_prop [(timeoutMs, JNum (Fin 60000))] timeoutMs = JNum (Fin 60000)"
    and g': "get_prop [(timeoutMs, JNum (Fin 59999))] timeoutMs = JNum (Fin 59999)"
    by (simp_all add: get_prop_def)
  from C1_timeout_range[OF h, of example_constants "[(timeoutMs, JNum (Fin 60000))]"] r g
       C1_timeout_range[OF h', of example_constants "[(timeoutMs, JNum (Fin 59999))]"] r' g' h
  show ?thesis by blast
qed

section \<open>Unrecognized keys\<close>

text \<open>
  C9. Session-config validation rejects any configuration object that has a key other
  than \<open>timeoutMs\<close>, \<open>cleanupIntervalMs\<close>, \<open>keepAliveIntervalMs\<close>,
  \<open>maxMissedHeartbeats\<close> or \<open>maxCount\<close>: \<open>parseSessionConfig\<close> throws and
  \<open>validateSessionConfigSafe\<close> returns a failure, which carries an
  \<open>unrecognized_keys\<close> error at the root path.
\<close>

theorem C9_unrecognized_key_rejected:
  assumes "k \<in> fst ` set kvs"
    and "k \<notin> {timeoutMs, cleanupIntervalMs, keepAliveIntervalMs, maxMissedHeartbeats, maxCount}"
  shows "(\<exists>e. parseSessionConfig D (JObj kvs) = Inl e)
       \<and> (\<exists>errs. validateSessionConfigSafe D (JObj kvs) = Failure errs
                 \<and> (\<exists>e \<in> set errs. code e = unrecognized_keys \<and> path e = []))"
proof -
  have ex: "extra_keys (SessionConfigShape D) kvs \<noteq> []"
    using assms unfolding extra_keys_Nil_iff shape_keys by blast
  have nv: "status (SessionConfigSchema D [] (JObj kvs)) \<noteq> Valid"
    using assms unfolding schema_valid_iff base_valid_iff by blast
  have "mk_issue [] unrecognized_keys BuiltinMessage
          \<in> set (issues (SessionConfigSchema D [] (JObj kvs)))"
    unfolding schema_issues base_issues using ex by simp
  then have "\<exists>e \<in> set (issues (SessionConfigSchema D [] (JObj kvs))).
               code e = unrecognized_keys \<and> path e = []"
    by (rule bexI[rotated]) (simp add: mk_issue_def)
  with nv show ?thesis
    by (simp add: parseSessionConfig_def parse_def validateSessionConfigSafe_def safeParse_def
        Let_def record_copy)
qed

theorem C9_unrecognized_key_rejected_witness:
  "(\<exists>e. parseSessionConfig example_constants
           (JObj [(timeoutMs, JNum (Fin 600000)), (ustr ''verbose'', JBool True)]) = Inl e)
   \<and> (\<exists>errs. validateSessionConfigSafe example_constants
                (JObj [(timeoutMs, JNum (Fin 600000)), (ustr ''verbose'', JBool True)]) = Failure errs
              \<and> (\<exists>e \<in> set errs. code e = unrecognized_keys \<and> path e = []))"
proof -
  have a: "ustr ''verbose'' \<in> fst ` set [(timeoutMs, JNum (Fin 600000)), (ustr ''verbose'', JBool True)]"
    by simp
  have b: "ustr ''verbose'' \<notin> {timeoutMs, cleanupIntervalMs, keepAliveIntervalMs, maxMissedHeartbeats, maxCount}"
    by (simp add: config_keys ustr_def)
  show ?thesis by (rule C9_unrecognized_key_rejected[OF a b])
qed

section \<open>Helper predicates on \<open>undefined\<close>\<close>

lemma default_valid_iff:
  "status (z_default (JNum (Fin d)) (z_number re ite [IntCheck a, MinCheck lo b, MaxCheck hi c]) [] JUndefined) = Valid
     \<longleftrightarrow> d \<in> \<int> \<and> lo \<le> d \<and> d \<le> hi"
  unfolding z_default_def by (auto simp: z_number_valid_iff integer_between_def Ints_def)

text \<open>
  C10. Each per-field helper (\<open>isValidTimeout\<close>, \<open>isValidCleanupInterval\<close>,
  \<open>isValidKeepAliveInterval\<close>, \<open>isValidMaxMissedHeartbeats\<close>,
  \<open>isValidMaxCount\<close>) returns true for \<open>undefined\<close>, because the schema
  substitutes its default, while \<open>isValidSessionId(undefined)\<close> is false. The
  defaults come from \<open>./constants.js\<close>; the helpers answer for the default, so the
  statement is for defaults that are integers within their own field's bounds.
\<close>

theorem C10_helpers_on_undefined:
  assumes "DEFAULT_SESSION_TIMEOUT_MS D \<in> \<int>"
      and "60000 \<le> DEFAULT_SESSION_TIMEOUT_MS D" and "DEFAULT_SESSION_TIMEOUT_MS D \<le> 157680000000"
      and "DEFAULT_SESSION_CLEANUP_INTERVAL_MS D \<in> \<int>"
      and "10000 \<le> DEFAULT_SESSION_CLEANUP_INTERVAL_MS D"
      and "DEFAULT_SESSION_CLEANUP_INTERVAL_MS D \<le> 3600000"
      and "DEFAULT_SESSION_KEEP_ALIVE_INTERVAL_MS D \<in> \<int>"
      and "5000 \<le> DEFAULT_SESSION_KEEP_ALIVE_INTERVAL_MS D"
      and "DEFAULT_SESSION_KEEP_ALIVE_INTERVAL_MS D \<le> 300000"
      and "DEFAULT_SESSION_MAX_MISSED_HEARTBEATS D \<in> \<int>"
      and "1 \<le> DEFAULT_SESSION_MAX_MISSED_HEARTBEATS D"
      and "DEFAULT_SESSION_MAX_MISSED_HEARTBEATS D \<le> 100"
      and "DEFAULT_SESSION_MAX_COUNT D \<in> \<int>"
      and "1 \<le> DEFAULT_SESSION_MAX_COUNT D" and "DEFAULT_SESSION_MAX_COUNT D \<le> 10000"
  shows "isValidTimeout D JUndefined
       \<and> isValidCleanupInterval D JUndefined
       \<and> isValidKeepAliveInterval D JUndefined
       \<and> isValidMaxMissedHeartbeats D JUndefined
       \<and> isValidMaxCount D JUndefined
       \<and> \<not> isValidSessionId JUndefined"
proof -
  have "\<not> isValidSessionId JUndefined"
    by (simp add: isValidSessionId_def success_def safeParse_def SessionIdSchema_def z_string_def
        INVALID_def)
  moreover have "isValidTimeout D JUndefined"
    using assms(1-3)
    by (simp add: isValidTimeout_def success_def safeParse_def Let_def SessionTimeoutSchema_def
        default_valid_iff SESSION_CONFIG_LIMITS)
  moreover have "isValidCleanupInterval D JUndefined"
    using assms(4-6)
    by (simp add: isValidCleanupInterval_def success_def safeParse_def Let_def
        SessionCleanupIntervalSchema_def default_valid_iff SESSION_CONFIG_LIMITS)
  moreover have "isValidKeepAliveInterval D JUndefined"
    using assms(7-9)
    by (simp add: isValidKeepAliveInterval_def success_def safeParse_def Let_def
        SessionKeepAliveIntervalSchema_def default_valid_iff SESSION_CONFIG_LIMITS)
  moreover have "isValidMaxMissedHeartbeats D JUndefined"
    using assms(10-12)
    by (simp add: isValidMaxMissedHeartbeats_def success_def safeParse_def Let_def
        SessionMaxMissedHeartbeatsSchema_def default_valid_iff SESSION_CONFIG_LIMITS)
  moreover have "isValidMaxCount D JUndefined"
    using assms(13-15)
    by (simp add: isValidMaxCount_def success_def safeParse_def Let_def
        SessionMaxCountSchema_def default_valid_iff SESSION_CONFIG_LIMITS)
  ultimately show ?thesis by blast
qed

theorem C10_helpers_on_undefined_witness:
  "isValidTimeout example_constants JUndefined
   \<and> isValidCleanupInterval example_constants JUndefined
   \<and> isValidKeepAliveInterval example_constants JUndefined
   \<and> isValidMaxMissedHeartbeats example_constants JUndefined
   \<and> isValidMaxCount example_constants JUndefined
   \<and> \<not> isValidSessionId JUndefined"
  by (rule C10_helpers_on_undefined) (simp_all add: example_constants_def)


section \<open>Cross-field checks\<close>

lemma field_or_effective:
  assumes "absent_or_between lo hi (get_prop kvs k)"
    and "get_prop out k = get_prop kvs k"
  shows "field_or (JObj out) k d = Fin (effective kvs k d)"
  using assms
  by (auto simp: field_or_def effective_def absent_or_between_def integer_between_def)

text \<open>
  C2. For a configuration whose keys are all known and whose provided values are each
  within their field's bounds, validation fails if and only if the effective timeout is
  at most the effective keep-alive interval, or is below the effective cleanup
  interval (effective: the provided value, or the default when omitted); otherwise it
  passes.
\<close>

theorem C2_cross_field_checks:
  assumes "fst ` set kvs \<subseteq>
             {timeoutMs, cleanupIntervalMs, keepAliveIntervalMs, maxMissedHeartbeats, maxCount}"
    and "absent_or_between MIN_TIMEOUT_MS MAX_TIMEOUT_MS (get_prop kvs timeoutMs)"
    and "absent_or_between MIN_CLEANUP_INTERVAL_MS MAX_CLEANUP_INTERVAL_MS
           (get_prop kvs cleanupIntervalMs)"
    and "absent_or_between MIN_KEEP_ALIVE_INTERVAL_MS MAX_KEEP_ALIVE_INTERVAL_MS
           (get_prop kvs keepAliveIntervalMs)"
    and "absent_or_between MIN_MISSED_HEARTBEATS MAX_MISSED_HEARTBEATS
           (get_prop kvs maxMissedHeartbeats)"
    and "absent_or_between MIN_SESSION_COUNT MAX_SESSION_COUNT (get_prop kvs maxCount)"
  shows "((\<exists>errs. validateSessionConfigSafe D (JObj kvs) = Failure errs) \<longleftrightarrow>
            effective kvs timeoutMs (DEFAULT_SESSION_TIMEOUT_MS D)
              \<le> effective kvs keepAliveIntervalMs (DEFAULT_SESSION_KEEP_ALIVE_INTERVAL_MS D)
          \<or> effective kvs timeoutMs (DEFAULT_SESSION_TIMEOUT_MS D)
              < effective kvs cleanupIntervalMs (DEFAULT_SESSION_CLEANUP_INTERVAL_MS D))
       \<and> ((\<exists>e. parseSessionConfig D (JObj kvs) = Inl e) \<longleftrightarrow>
            effective kvs timeoutMs (DEFAULT_SESSION_TIMEOUT_MS D)
              \<le> effective kvs keepAliveIntervalMs (DEFAULT_SESSION_KEEP_ALIVE_INTERVAL_MS D)
          \<or> effective kvs timeoutMs (DEFAULT_SESSION_TIMEOUT_MS D)
              < effective kvs cleanupIntervalMs (DEFAULT_SESSION_CLEANUP_INTERVAL_MS D))"
proof -
  let ?base = "SessionConfigBaseSchema D [] (JObj kvs)"
  let ?out = "merged (SessionConfigShape D) [] kvs"
  have bv: "status ?base = Valid"
    using assms unfolding base_valid_iff by simp
  then have na: "status ?base \<noteq> Aborted" by simp
  have val: "pvalue ?base = JObj ?out"
    using na unfolding SessionConfigBaseSchema_def by (rule z_object_value)
  have t: "field_or (JObj ?out) timeoutMs d = Fin (effective kvs timeoutMs d)" for d
    using assms(2) base_field[OF na, of timeoutMs] by (intro field_or_effective) auto
  have c: "field_or (JObj ?out) cleanupIntervalMs d = Fin (effective kvs cleanupIntervalMs d)" for d
    using assms(3) base_field[OF na, of cleanupIntervalMs] by (intro field_or_effective) auto
  have k: "field_or (JObj ?out) keepAliveIntervalMs d = Fin (effective kvs keepAliveIntervalMs d)" for d
    using assms(4) base_field[OF na, of keepAliveIntervalMs] by (intro field_or_effective) auto
  have v: "status (SessionConfigSchema D [] (JObj kvs)) = Valid \<longleftrightarrow>
             effective kvs keepAliveIntervalMs (DEFAULT_SESSION_KEEP_ALIVE_INTERVAL_MS D)
               < effective kvs timeoutMs (DEFAULT_SESSION_TIMEOUT_MS D)
           \<and> effective kvs cleanupIntervalMs (DEFAULT_SESSION_CLEANUP_INTERVAL_MS D)
               \<le> effective kvs timeoutMs (DEFAULT_SESSION_TIMEOUT_MS D)"
    unfolding schema_valid_iff val keepAlive_lt_timeout_def cleanup_le_timeout_def Let_def t c k
    using bv by simp
  show ?thesis
    using v
    by (auto simp: validateSessionConfigSafe_def parseSessionConfig_def parse_def safeParse_def
        Let_def)
qed

theorem C2_cross_field_checks_witness:
  "(\<exists>errs. validateSessionConfigSafe example_constants
              (JObj [(timeoutMs, JNum (Fin 60000)), (keepAliveIntervalMs, JNum (Fin 60000))])
            = Failure errs)
   \<and> (\<exists>e. parseSessionConfig example_constants
              (JObj [(timeoutMs, JNum (Fin 60000)), (cleanupIntervalMs, JNum (Fin 60001))]) = Inl e)
   \<and> \<not> (\<exists>errs. validateSessionConfigSafe example_constants
              (JObj [(timeoutMs, JNum (Fin 60000)), (cleanupIntervalMs, JNum (Fin 60000))])
            = Failure errs)"
proof -
  have b: "absent_or_between lo hi JUndefined" for lo hi
    by (simp add: absent_or_between_def)
  have i: "lo \<le> of_int n \<Longrightarrow> of_int n \<le> hi \<Longrightarrow> absent_or_between lo hi (JNum (Fin (of_int n)))"
    for lo hi n
    by (auto simp: absent_or_between_def integer_between_def)
  have n60000: "absent_or_between lo hi (JNum (Fin 60000))" if "lo \<le> 60000" "60000 \<le> hi" for lo hi
    using i[of lo 60000 hi] that by simp
  have n60001: "absent_or_between lo hi (JNum (Fin 60001))" if "lo \<le> 60001" "60001 \<le> hi" for lo hi
    using i[of lo 60001 hi] that by simp
  note ev = get_prop_def config_keys ustr_def SESSION_CONFIG_LIMITS effective_def
    example_constants_def
  have 1: "(\<exists>errs. validateSessionConfigSafe example_constants
              (JObj [(timeoutMs, JNum (Fin 60000)), (keepAliveIntervalMs, JNum (Fin 60000))])
            = Failure errs)"
    using C2_cross_field_checks[of "[(timeoutMs, JNum (Fin 60000)), (keepAliveIntervalMs, JNum (Fin 60000))]"
        example_constants]
    by (simp add: ev b n60000)
  have 2: "(\<exists>e. parseSessionConfig example_constants
              (JObj [(timeoutMs, JNum (Fin 60000)), (cleanupIntervalMs, JNum (Fin 60001))]) = Inl e)"
    using C2_cross_field_checks[of "[(timeoutMs, JNum (Fin 60000)), (cleanupIntervalMs, JNum (Fin 60001))]"
        example_constants]
    by (simp add: ev b n60000 n60001)
  have 3: "\<not> (\<exists>errs. validateSessionConfigSafe example_constants
              (JObj [(timeoutMs, JNum (Fin 60000)), (cleanupIntervalMs, JNum (Fin 60000))])
            = Failure errs)"
    using C2_cross_field_checks[of "[(timeoutMs, JNum (Fin 60000)), (cleanupIntervalMs, JNum (Fin 60000))]"
        example_constants]
    by (simp add: ev b n60000)
  from 1 2 3 show ?thesis by blast
qed

section \<open>The session timeout in the environment\<close>

lemma js_le_iff_not_lt: "n \<noteq> NaN \<Longrightarrow> js_le (Fin q) n \<longleftrightarrow> \<not> js_lt n (Fin q)"
  by (cases n) auto

lemma js_le_not_NaN: "js_le a n \<Longrightarrow> n \<noteq> NaN"
  by (cases a; cases n) auto

lemma coerce_min_status:
  "status (z_coerce_number N [MinCheck lo m] p v) = Valid \<longleftrightarrow> js_le (Fin lo) (N v)"
  using js_le_iff_not_lt[of "N v" lo] js_le_not_NaN[of "Fin lo" "N v"]
  by (auto simp: z_coerce_number_def z_number_def run_num_checks_def INVALID_def)

lemma coerce_min_value:
  "status (z_coerce_number N cs p v) \<noteq> Aborted \<Longrightarrow>
   pvalue (z_coerce_number N cs p v) = JNum (N v)"
  by (auto simp: z_coerce_number_def z_number_def run_num_checks_def INVALID_def Let_def
      split: if_splits)

lemmas env_keys =
  MCP_BIND_HOST_def MCP_PORT_def MCP_LEGACY_SSE_ENABLED_def MCP_SESSION_TIMEOUT_MS_def

lemma env_shape_distinct: "distinct (map fst (frameworkEnvShape R))"
  by (simp add: frameworkEnvShape_def env_keys ustr_def)

lemma env_shape_timeout:
  "map_of (frameworkEnvShape R) MCP_SESSION_TIMEOUT_MS = Some (session_timeout_ms R)"
  by (simp add: frameworkEnvShape_def env_keys ustr_def)

lemma env_shape_timeout_mem:
  "(MCP_SESSION_TIMEOUT_MS, session_timeout_ms R) \<in> set (frameworkEnvShape R)"
  by (simp add: frameworkEnvShape_def)

lemma session_timeout_ms_valid:
  "status (session_timeout_ms R p v) = Valid \<longleftrightarrow> js_le (Fin 60000) (timeout_read R v)"
  by (simp add: session_timeout_ms_def z_default_def coerce_min_status timeout_read_def)

lemma session_timeout_ms_value:
  "status (session_timeout_ms R p v) \<noteq> Aborted \<Longrightarrow>
   pvalue (session_timeout_ms R p v) = JNum (timeout_read R v)"
  by (simp add: session_timeout_ms_def z_default_def coerce_min_value timeout_read_def)

lemma parseFrameworkEnv_Inr:
  assumes "parseFrameworkEnv R env = Inr cfg"
  shows "status (frameworkEnvSchema R [] (env_object env)) = Valid"
    and "cfg = JObj (merged (frameworkEnvShape R) [] (map (\<lambda>(k, v). (k, JStr v)) env))"
proof -
  show v: "status (frameworkEnvSchema R [] (env_object env)) = Valid"
    using assms by (auto simp: parseFrameworkEnv_def parse_def safeParse_def Let_def split: if_splits)
  have "cfg = pvalue (frameworkEnvSchema R [] (env_object env))"
    using assms by (auto simp: parseFrameworkEnv_def parse_def safeParse_def Let_def split: if_splits)
  also have "\<dots> = JObj (merged (frameworkEnvShape R) [] (map (\<lambda>(k, v). (k, JStr v)) env))"
    using v unfolding frameworkEnvSchema_def env_object_def by (intro z_object_value) simp
  finally show "cfg = JObj (merged (frameworkEnvShape R) [] (map (\<lambda>(k, v). (k, JStr v)) env))" .
qed

lemma env_var_get_prop: "env_var env k = get_prop (map (\<lambda>(k, v). (k, JStr v)) env) k"
  by (simp add: env_var_def field_def env_object_def)

lemma env_timeout_field:
  assumes "parseFrameworkEnv R env = Inr cfg"
  shows "field cfg MCP_SESSION_TIMEOUT_MS
           = JNum (timeout_read R (env_var env MCP_SESSION_TIMEOUT_MS))"
    and "js_le (Fin 60000)
           (timeout_read R (env_var env MCP_SESSION_TIMEOUT_MS))"
proof -
  let ?kvs = "map (\<lambda>(k, v). (k, JStr v)) env"
  have "\<forall>(k, sch) \<in> set (frameworkEnvShape R). status (sch ([] @ [k]) (get_prop ?kvs k)) = Valid"
    using parseFrameworkEnv_Inr(1)[OF assms]
    unfolding frameworkEnvSchema_def env_object_def z_object_status_valid env_var_get_prop by simp
  with env_shape_timeout_mem[of R]
  have v: "status (session_timeout_ms R [MCP_SESSION_TIMEOUT_MS] (env_var env MCP_SESSION_TIMEOUT_MS)) = Valid"
    by (fastforce simp: env_var_get_prop)
  then show "js_le (Fin 60000) (timeout_read R (env_var env MCP_SESSION_TIMEOUT_MS))"
    by (simp add: session_timeout_ms_valid)
  show "field cfg MCP_SESSION_TIMEOUT_MS = JNum (timeout_read R (env_var env MCP_SESSION_TIMEOUT_MS))"
    unfolding parseFrameworkEnv_Inr(2)[OF assms] field_def
    using v by (simp add: get_prop_merged[OF env_shape_distinct] env_shape_timeout
        session_timeout_ms_value env_var_get_prop)
qed

lemma env_timeout_rejected:
  assumes "\<not> js_le (Fin 60000)
           (timeout_read R (env_var env MCP_SESSION_TIMEOUT_MS))"
  shows "\<exists>e. parseFrameworkEnv R env = Inl e"
proof -
  let ?kvs = "map (\<lambda>(k, v). (k, JStr v)) env"
  have "status (session_timeout_ms R ([] @ [MCP_SESSION_TIMEOUT_MS]) (env_var env MCP_SESSION_TIMEOUT_MS)) \<noteq> Valid"
    using assms by (simp add: session_timeout_ms_valid)
  with env_shape_timeout_mem[of R]
  have "status (frameworkEnvSchema R [] (env_object env)) \<noteq> Valid"
    unfolding frameworkEnvSchema_def env_object_def z_object_status_valid env_var_get_prop by fastforce
  then show ?thesis
    by (simp add: parseFrameworkEnv_def parse_def safeParse_def Let_def)
qed


lemmas env_eval =
  parseFrameworkEnv_def parse_def safeParse_def Let_def frameworkEnvSchema_def
  env_object_def z_object_def extra_keys_def parse_pairs_def mergeObjectSync_def
  frameworkEnvShape_def env_keys ustr_def get_prop_def has_prop_def
  z_default_def z_string_def z_enum_def z_refine_def z_transform_def on_str_def
  boolean_flag_def z_or_def z_boolean_def z_optional_def session_timeout_ms_def
  z_coerce_number_def z_number_def run_num_checks_def js_Number_def example_runtime_def
  decimal_digits_def digit_of_def OK_def INVALID_def z_string_url_def

lemma env_above_max_accepted:
  "\<not> isl (parseFrameworkEnv example_runtime [(MCP_SESSION_TIMEOUT_MS, ustr ''200000000000'')])"
  by (simp add: env_eval)

lemma StringToNumber_example:
  "StringToNumber example_runtime (ustr ''200000000000'') = Fin 200000000000"
  "StringToNumber example_runtime (ustr ''59999'') = Fin 59999"
  by (simp_all add: example_runtime_def ustr_def decimal_digits_def digit_of_def)

lemma env_var_example:
  "env_var [(MCP_SESSION_TIMEOUT_MS, s)] MCP_SESSION_TIMEOUT_MS = JStr s"
  "env_var [] k = JUndefined"
  by (simp_all add: env_var_get_prop get_prop_def)

lemma parseSessionConfig_Inr_iff:
  "(\<exists>c. parseSessionConfig D v = Inr c) \<longleftrightarrow> status (SessionConfigSchema D [] v) = Valid"
  by (simp add: parseSessionConfig_def parse_def safeParse_def Let_def)

lemma timeout_only_get_prop:
  "get_prop [(timeoutMs, v)] timeoutMs = v"
  "get_prop [(timeoutMs, v)] cleanupIntervalMs = JUndefined"
  "get_prop [(timeoutMs, v)] keepAliveIntervalMs = JUndefined"
  "get_prop [(timeoutMs, v)] maxMissedHeartbeats = JUndefined"
  "get_prop [(timeoutMs, v)] maxCount = JUndefined"
  using config_keys_distinct by (auto simp: get_prop_def)

lemma timeout_only_valid_iff:
  "status (SessionConfigSchema D [] (JObj [(timeoutMs, JNum n)])) = Valid \<longleftrightarrow>
     integer_between MIN_TIMEOUT_MS MAX_TIMEOUT_MS (JNum n)
     \<and> js_lt (Fin (DEFAULT_SESSION_KEEP_ALIVE_INTERVAL_MS D)) n
     \<and> js_le (Fin (DEFAULT_SESSION_CLEANUP_INTERVAL_MS D)) n"
proof (cases "status (SessionConfigBaseSchema D [] (JObj [(timeoutMs, JNum n)])) = Valid")
  case False
  then show ?thesis
    unfolding schema_valid_iff
    by (simp add: base_valid_iff timeout_only_get_prop absent_or_between_def)
next
  case True
  let ?kvs = "[(timeoutMs, JNum n)]"
  let ?out = "merged (SessionConfigShape D) [] ?kvs"
  from True have na: "status (SessionConfigBaseSchema D [] (JObj ?kvs)) \<noteq> Aborted" by simp
  have val: "pvalue (SessionConfigBaseSchema D [] (JObj ?kvs)) = JObj ?out"
    using na unfolding SessionConfigBaseSchema_def by (rule z_object_value)
  have t: "field_or (JObj ?out) timeoutMs d = n" for d
    using base_field[OF na, of timeoutMs] by (simp add: field_or_def timeout_only_get_prop)
  have k: "field_or (JObj ?out) keepAliveIntervalMs d = Fin d" for d
    using base_field[OF na, of keepAliveIntervalMs] by (simp add: field_or_def timeout_only_get_prop)
  have c: "field_or (JObj ?out) cleanupIntervalMs d = Fin d" for d
    using base_field[OF na, of cleanupIntervalMs] by (simp add: field_or_def timeout_only_get_prop)
  from True have "integer_between MIN_TIMEOUT_MS MAX_TIMEOUT_MS (JNum n)"
    by (simp add: base_valid_iff timeout_only_get_prop absent_or_between_def)
  with True show ?thesis
    unfolding schema_valid_iff val keepAlive_lt_timeout_def cleanup_le_timeout_def Let_def t k c
    by simp
qed

lemma timeout_in_table_iff:
  "integer_between MIN_TIMEOUT_MS MAX_TIMEOUT_MS (JNum n) \<longleftrightarrow>
     (\<exists>i::int. n = Fin (of_int i) \<and> 60000 \<le> i \<and> i \<le> 157680000000)"
  unfolding integer_between_def MIN_TIMEOUT_MS_def MAX_TIMEOUT_MS_def by simp

lemma constructor_spec_Some_iff:
  "(\<exists>sm. new_TransportSessionManager_spec D build (JObj [(timeoutMs, JNum n)]) = Some sm) \<longleftrightarrow>
     (\<exists>i::int. n = Fin (of_int i) \<and> 60000 \<le> i \<and> i \<le> 157680000000
        \<and> DEFAULT_SESSION_KEEP_ALIVE_INTERVAL_MS D < of_int i
        \<and> DEFAULT_SESSION_CLEANUP_INTERVAL_MS D \<le> of_int i)"
proof -
  have "(\<exists>sm. new_TransportSessionManager_spec D build (JObj [(timeoutMs, JNum n)]) = Some sm)
        \<longleftrightarrow> (\<exists>c. parseSessionConfig D (JObj [(timeoutMs, JNum n)]) = Inr c)"
    by (auto simp: new_TransportSessionManager_spec_def split: sum.splits)
  also have "\<dots> \<longleftrightarrow> integer_between MIN_TIMEOUT_MS MAX_TIMEOUT_MS (JNum n)
     \<and> js_lt (Fin (DEFAULT_SESSION_KEEP_ALIVE_INTERVAL_MS D)) n
     \<and> js_le (Fin (DEFAULT_SESSION_CLEANUP_INTERVAL_MS D)) n"
    unfolding parseSessionConfig_Inr_iff by (rule timeout_only_valid_iff)
  also have "\<dots> \<longleftrightarrow> (\<exists>i::int. n = Fin (of_int i) \<and> 60000 \<le> i \<and> i \<le> 157680000000
        \<and> DEFAULT_SESSION_KEEP_ALIVE_INTERVAL_MS D < of_int i
        \<and> DEFAULT_SESSION_CLEANUP_INTERVAL_MS D \<le> of_int i)"
    unfolding timeout_in_table_iff by auto
  finally show ?thesis .
qed

lemma createExpressApp_Inr_iff:
  assumes "parseFrameworkEnv R env = Inr cfg"
  shows "(\<exists>a. createExpressApp R env M = Inr a) \<longleftrightarrow>
         (\<exists>sm. new_TransportSessionManager M (session_manager_config cfg) = Some sm)"
    and "new_TransportSessionManager M (session_manager_config cfg) = None \<Longrightarrow>
         createExpressApp R env M = Inl SessionManagerError
         \<and> startHttpServer R env M options = Inl SessionManagerError"
  using assms by (auto simp: createExpressApp_def startHttpServer_def split: option.splits)

lemma env_min_accepted:
  "\<not> isl (parseFrameworkEnv example_runtime [(MCP_SESSION_TIMEOUT_MS, ustr ''60000'')])"
  by (simp add: env_eval)

lemma StringToNumber_60000:
  "StringToNumber example_runtime (ustr ''60000'') = Fin 60000"
  by (simp add: example_runtime_def ustr_def decimal_digits_def digit_of_def)

text \<open>
  C3. With the session manager's constructor as the spec describes it (validating its
  configuration), a session timeout supplied through \<open>MCP_SESSION_TIMEOUT_MS\<close> that
  is not an integer from 60,000 to 157,680,000,000 is rejected before the server
  starts: \<open>createExpressApp\<close> and \<open>startHttpServer\<close> return the error and nothing
  listens. The environment schema itself rejects only what \<open>Number\<close> converts to NaN
  or to less than 60,000 (it has no upper bound and no integer check); every other
  value parses, is handed unchanged to the constructor as \<open>timeoutMs\<close>, and a value
  outside the table is rejected there. The application is built exactly for the
  timeouts the table admits.
\<close>

theorem C3_out_of_bounds_timeout_aborts:
  assumes "new_TransportSessionManager M = new_TransportSessionManager_spec D build"
    and "env_var env MCP_SESSION_TIMEOUT_MS = JStr s"
  shows "(\<not> (\<exists>i::int. StringToNumber R s = Fin (of_int i) \<and> 60000 \<le> i \<and> i \<le> 157680000000) \<longrightarrow>
            (\<exists>e. createExpressApp R env M = Inl e)
            \<and> (\<exists>e. startHttpServer R env M options = Inl e))
       \<and> (\<not> js_le (Fin 60000) (StringToNumber R s) \<longrightarrow>
            (\<exists>e. parseFrameworkEnv R env = Inl e
                 \<and> createExpressApp R env M = Inl (ConfigError e)
                 \<and> startHttpServer R env M options = Inl (ConfigError e)))
       \<and> (parseFrameworkEnv R env = Inr cfg \<longrightarrow>
            session_manager_config cfg = JObj [(timeoutMs, JNum (StringToNumber R s))]
            \<and> (\<not> (\<exists>i::int. StringToNumber R s = Fin (of_int i) \<and> 60000 \<le> i
                      \<and> i \<le> 157680000000) \<longrightarrow>
                 createExpressApp R env M = Inl SessionManagerError
                 \<and> startHttpServer R env M options = Inl SessionManagerError)
            \<and> ((\<exists>a. createExpressApp R env M = Inr a) \<longleftrightarrow>
                 (\<exists>i::int. StringToNumber R s = Fin (of_int i) \<and> 60000 \<le> i \<and> i \<le> 157680000000
                    \<and> DEFAULT_SESSION_KEEP_ALIVE_INTERVAL_MS D < of_int i
                    \<and> DEFAULT_SESSION_CLEANUP_INTERVAL_MS D \<le> of_int i)))"
proof -
  let ?n = "StringToNumber R s"
  let ?T = "\<exists>i::int. ?n = Fin (of_int i) \<and> 60000 \<le> i \<and> i \<le> 157680000000"
  have r: "timeout_read R (JStr s) = ?n"
    by (simp add: timeout_read_def js_Number_def)
  have env_rej: "\<exists>e. parseFrameworkEnv R env = Inl e
                 \<and> createExpressApp R env M = Inl (ConfigError e)
                 \<and> startHttpServer R env M options = Inl (ConfigError e)"
    if h: "\<not> js_le (Fin 60000) ?n"
  proof -
    obtain e where "parseFrameworkEnv R env = Inl e"
      using env_timeout_rejected[of R env] assms(2) h r by auto
    then show ?thesis by (simp add: createExpressApp_def startHttpServer_def)
  qed
  have parsed: "session_manager_config cfg = JObj [(timeoutMs, JNum ?n)]
            \<and> (\<not> ?T \<longrightarrow> createExpressApp R env M = Inl SessionManagerError
                 \<and> startHttpServer R env M options = Inl SessionManagerError)
            \<and> ((\<exists>a. createExpressApp R env M = Inr a) \<longleftrightarrow>
                 (\<exists>i::int. ?n = Fin (of_int i) \<and> 60000 \<le> i \<and> i \<le> 157680000000
                    \<and> DEFAULT_SESSION_KEEP_ALIVE_INTERVAL_MS D < of_int i
                    \<and> DEFAULT_SESSION_CLEANUP_INTERVAL_MS D \<le> of_int i))"
    if p: "parseFrameworkEnv R env = Inr cfg" for cfg
  proof -
    have c: "session_manager_config cfg = JObj [(timeoutMs, JNum ?n)]"
      using env_timeout_field(1)[OF p] assms(2) r by (simp add: session_manager_config_def)
    have iff: "(\<exists>a. createExpressApp R env M = Inr a) \<longleftrightarrow>
                 (\<exists>i::int. ?n = Fin (of_int i) \<and> 60000 \<le> i \<and> i \<le> 157680000000
                    \<and> DEFAULT_SESSION_KEEP_ALIVE_INTERVAL_MS D < of_int i
                    \<and> DEFAULT_SESSION_CLEANUP_INTERVAL_MS D \<le> of_int i)"
      unfolding createExpressApp_Inr_iff(1)[OF p] c assms(1) by (rule constructor_spec_Some_iff)
    have "createExpressApp R env M = Inl SessionManagerError
          \<and> startHttpServer R env M options = Inl SessionManagerError" if nt: "\<not> ?T"
    proof -
      have "\<not> (\<exists>sm. new_TransportSessionManager_spec D build (JObj [(timeoutMs, JNum ?n)]) = Some sm)"
        unfolding constructor_spec_Some_iff using nt by blast
      then have "new_TransportSessionManager M (session_manager_config cfg) = None"
        unfolding c assms(1) by simp
      then show ?thesis by (rule createExpressApp_Inr_iff(2)[OF p])
    qed
    with c iff show ?thesis by blast
  qed
  have out: "(\<exists>e. createExpressApp R env M = Inl e) \<and> (\<exists>e. startHttpServer R env M options = Inl e)"
    if nt: "\<not> ?T"
  proof (cases "parseFrameworkEnv R env")
    case (Inl e)
    then show ?thesis by (simp add: createExpressApp_def startHttpServer_def)
  next
    case (Inr cfg')
    from parsed[OF Inr] nt show ?thesis by auto
  qed
  from env_rej parsed[of cfg] out show ?thesis by blast
qed

theorem C3_out_of_bounds_timeout_aborts_witness:
  "startHttpServer example_runtime [(MCP_SESSION_TIMEOUT_MS, ustr ''200000000000'')]
      example_modules \<lparr>port = None, bindHost = None\<rparr> = Inl SessionManagerError
   \<and> (\<exists>e. startHttpServer example_runtime [(MCP_SESSION_TIMEOUT_MS, ustr ''59999'')]
            example_modules \<lparr>port = None, bindHost = None\<rparr> = Inl (ConfigError e))
   \<and> (\<exists>a. createExpressApp example_runtime [(MCP_SESSION_TIMEOUT_MS, ustr ''60000'')]
            example_modules = Inr a)"
proof -
  let ?hi = "[(MCP_SESSION_TIMEOUT_MS, ustr ''200000000000'')]"
  let ?lo = "[(MCP_SESSION_TIMEOUT_MS, ustr ''59999'')]"
  let ?ok = "[(MCP_SESSION_TIMEOUT_MS, ustr ''60000'')]"
  let ?o = "\<lparr>port = None, bindHost = None\<rparr>"
  have m: "new_TransportSessionManager example_modules
             = new_TransportSessionManager_spec example_constants (\<lambda>validated. 0)"
    by (simp add: example_modules_def)
  have hi: "parseFrameworkEnv example_runtime ?hi = Inr (projr (parseFrameworkEnv example_runtime ?hi))"
    using env_above_max_accepted by simp
  have ok: "parseFrameworkEnv example_runtime ?ok = Inr (projr (parseFrameworkEnv example_runtime ?ok))"
    using env_min_accepted by simp
  have nhi: "\<not> (\<exists>i::int. Fin 200000000000 = Fin (of_int i) \<and> 60000 \<le> i \<and> i \<le> 157680000000)"
    by auto
  have iok: "\<exists>i::int. Fin 60000 = Fin (of_int i) \<and> 60000 \<le> i \<and> i \<le> 157680000000
               \<and> DEFAULT_SESSION_KEEP_ALIVE_INTERVAL_MS example_constants < of_int i
               \<and> DEFAULT_SESSION_CLEANUP_INTERVAL_MS example_constants \<le> of_int i"
    by (rule exI[of _ 60000]) (simp add: example_constants_def)
  have 1: "startHttpServer example_runtime ?hi example_modules ?o = Inl SessionManagerError"
    using C3_out_of_bounds_timeout_aborts[OF m env_var_example(1),
            of example_runtime "ustr ''200000000000''" ?o "projr (parseFrameworkEnv example_runtime ?hi)"]
          hi nhi
    by (simp add: StringToNumber_example)
  have 2: "\<exists>e. startHttpServer example_runtime ?lo example_modules ?o = Inl (ConfigError e)"
    using C3_out_of_bounds_timeout_aborts[OF m env_var_example(1),
            of example_runtime "ustr ''59999''" ?o JNull]
    by (simp add: StringToNumber_example) blast
  have 3: "\<exists>a. createExpressApp example_runtime ?ok example_modules = Inr a"
    using C3_out_of_bounds_timeout_aborts[OF m env_var_example(1),
            of example_runtime "ustr ''60000''" ?o "projr (parseFrameworkEnv example_runtime ?ok)"]
          ok iok
    by (simp add: StringToNumber_60000)
  from 1 2 3 show ?thesis by blast
qed

section \<open>The default session timeout\<close>

lemma env_empty_accepted: "\<not> isl (parseFrameworkEnv example_runtime [])"
  by (simp add: env_eval)

lemma parse_empty_config: "parseSessionConfig example_constants (JObj []) = Inr (JObj [])"
  by (simp add: parseSessionConfig_def parse_def safeParse_def SessionConfigSchema_def
      applySessionConfigRefinements_def z_refine_def SessionConfigBaseSchema_def z_object_def
      SessionConfigShape_def extra_keys_def parse_pairs_def mergeObjectSync_def get_prop_def
      has_prop_def z_optional_def OK_def cleanup_le_timeout_def keepAlive_lt_timeout_def
      field_or_def example_constants_def Let_def)

text \<open>
  C5, as stated, fails for the session-config schema: the validated configuration of
  the empty object is the empty object, with no \<open>timeoutMs\<close> in it (the field is
  \<open>SessionTimeoutSchema.optional()\<close>, and \<open>optional\<close> returns \<open>undefined\<close>
  before the default is consulted).
\<close>

theorem C5_omitted_timeout_counterexample:
  "parseSessionConfig example_constants (JObj []) = Inr (JObj [])
   \<and> field (JObj []) timeoutMs \<noteq> JNum (Fin 1800000)"
  using parse_empty_config by (simp add: field_def get_prop_def)

lemma parseSessionConfig_Inr:
  assumes "parseSessionConfig D (JObj kvs) = Inr out"
  shows "out = JObj (merged (SessionConfigShape D) [] kvs)"
    and "status (SessionConfigBaseSchema D [] (JObj kvs)) = Valid"
proof -
  have v: "status (SessionConfigSchema D [] (JObj kvs)) = Valid"
    using assms
    by (auto simp: parseSessionConfig_def parse_def safeParse_def Let_def split: if_splits)
  then show b: "status (SessionConfigBaseSchema D [] (JObj kvs)) = Valid"
    by (simp add: schema_valid_iff)
  have "out = pvalue (SessionConfigSchema D [] (JObj kvs))"
    using assms
    by (auto simp: parseSessionConfig_def parse_def safeParse_def Let_def split: if_splits)
  also have "\<dots> = pvalue (SessionConfigBaseSchema D [] (JObj kvs))"
    using b by (simp add: SessionConfigSchema_def applySessionConfigRefinements_def
        pvalue_z_refine status_z_refine_aborted)
  also have "\<dots> = JObj (merged (SessionConfigShape D) [] kvs)"
    using b unfolding SessionConfigBaseSchema_def by (intro z_object_value) simp
  finally show "out = JObj (merged (SessionConfigShape D) [] kvs)" .
qed

lemma get_prop_absent: "k \<notin> fst ` set kvs \<Longrightarrow> get_prop kvs k = JUndefined"
  by (simp add: get_prop_def map_of_eq_None_iff[THEN iffD2])

text \<open>
  C5, amended. When the session timeout is omitted: the environment configuration
  defaults \<open>MCP_SESSION_TIMEOUT_MS\<close> to exactly 1,800,000, and that is the
  \<open>timeoutMs\<close> the session manager is constructed with; \<open>SessionTimeoutSchema\<close>
  parsed on its own substitutes \<open>DEFAULT_SESSION_TIMEOUT_MS\<close> (1,800,000 when the
  constant has the value of the spec's table); the configuration validated by
  \<open>SessionConfigSchema\<close> keeps \<open>timeoutMs\<close> absent, and the default is only the
  effective timeout of the cross-field checks.
\<close>

theorem C5_default_timeout:
  "(env_var env MCP_SESSION_TIMEOUT_MS = JUndefined \<longrightarrow> parseFrameworkEnv R env = Inr cfg \<longrightarrow>
      session_manager_config cfg = JObj [(timeoutMs, JNum (Fin 1800000))])
   \<and> (DEFAULT_SESSION_TIMEOUT_MS D = 1800000 \<longrightarrow>
      safeParse (SessionTimeoutSchema D) JUndefined = SafeSuccess (JNum (Fin 1800000)))
   \<and> (timeoutMs \<notin> fst ` set kvs \<longrightarrow> parseSessionConfig D (JObj kvs) = Inr out \<longrightarrow>
      field out timeoutMs = JUndefined
      \<and> field_or out timeoutMs (DEFAULT_SESSION_TIMEOUT_MS D) = Fin (DEFAULT_SESSION_TIMEOUT_MS D))"
proof -
  have 1: "session_manager_config cfg = JObj [(timeoutMs, JNum (Fin 1800000))]"
    if u: "env_var env MCP_SESSION_TIMEOUT_MS = JUndefined"
      and p: "parseFrameworkEnv R env = Inr cfg"
    using env_timeout_field(1)[OF p] u
    by (simp add: session_manager_config_def timeout_read_def js_Number_def)
  have 2: "safeParse (SessionTimeoutSchema D) JUndefined = SafeSuccess (JNum (Fin 1800000))"
    if "DEFAULT_SESSION_TIMEOUT_MS D = 1800000"
    using that
    by (simp add: safeParse_def SessionTimeoutSchema_def z_default_def z_number_def
        run_num_checks_def js_gt_def SESSION_CONFIG_LIMITS)
  have 3: "field out timeoutMs = JUndefined
      \<and> field_or out timeoutMs (DEFAULT_SESSION_TIMEOUT_MS D) = Fin (DEFAULT_SESSION_TIMEOUT_MS D)"
    if a: "timeoutMs \<notin> fst ` set kvs" and p: "parseSessionConfig D (JObj kvs) = Inr out"
  proof -
    have na: "status (SessionConfigBaseSchema D [] (JObj kvs)) \<noteq> Aborted"
      using parseSessionConfig_Inr(2)[OF p] by simp
    have "get_prop (merged (SessionConfigShape D) [] kvs) timeoutMs = JUndefined"
      using base_field[OF na, of timeoutMs] get_prop_absent[OF a] by simp
    then show ?thesis
      unfolding parseSessionConfig_Inr(1)[OF p] by (simp add: field_def field_or_def)
  qed
  from 1 2 3 show ?thesis by blast
qed

theorem C5_default_timeout_witness:
  "session_manager_config (projr (parseFrameworkEnv example_runtime []))
     = JObj [(timeoutMs, JNum (Fin 1800000))]
   \<and> safeParse (SessionTimeoutSchema example_constants) JUndefined = SafeSuccess (JNum (Fin 1800000))
   \<and> field (JObj []) timeoutMs = JUndefined
   \<and> field_or (JObj []) timeoutMs (DEFAULT_SESSION_TIMEOUT_MS example_constants) = Fin 1800000"
proof -
  have a: "parseFrameworkEnv example_runtime [] = Inr (projr (parseFrameworkEnv example_runtime []))"
    using env_empty_accepted by simp
  have b: "timeoutMs \<notin> fst ` set []" by simp
  have c: "DEFAULT_SESSION_TIMEOUT_MS example_constants = 1800000"
    by (simp add: example_constants_def)
  from C5_default_timeout[of "[]" example_runtime "projr (parseFrameworkEnv example_runtime [])"
         example_constants "[]" "JObj []"] a b c parse_empty_config
  show ?thesis by (simp add: env_var_example)
qed

section \<open>The filter chain before the Streamable Router\<close>






lemma app_of_createExpressApp:
  assumes "createExpressApp R env M = Inr a"
  shows "app a =
    [Layer Helmet None (without_manager (helmet M)),
     Layer ExpressJson None (without_manager (express_json M)),
     Layer HealthRouter None (createHealthRouter M),
     Layer SseRouter None (without_manager (createSseRouter M)),
     Layer DnsRebindingProtection (Some mcp) (without_manager (dnsRebindingProtection M)),
     Layer RateLimiter (Some mcp) (without_manager (createRateLimiter M)),
     Layer ValidateProtocolVersion (Some mcp) (without_manager (validateProtocolVersion M)),
     Layer ValidateAcceptHeader (Some mcp) (without_manager (validateAcceptHeader M)),
     Layer ValidateContentType (Some mcp) (without_manager (validateContentType M)),
     Layer ValidateJsonRpc (Some mcp) (without_manager (validateJsonRpc M)),
     Layer StreamableHttpRouter (Some mcp) (createStreamableHttpRouter M)]"
proof (cases "parseFrameworkEnv R env")
  case (Inl e)
  with assms show ?thesis by (simp add: createExpressApp_def)
next
  case (Inr cfg)
  show ?thesis
  proof (cases "new_TransportSessionManager M (session_manager_config cfg)")
    case None
    with Inr assms show ?thesis by (simp add: createExpressApp_def)
  next
    case (Some sm)
    with Inr assms show ?thesis by (auto simp add: createExpressApp_def)
  qed
qed




lemma example_app:
  "createExpressApp example_runtime [] example_modules
     = Inr (projr (createExpressApp example_runtime [] example_modules))"
proof -
  obtain cfg where cfg: "parseFrameworkEnv example_runtime [] = Inr cfg"
    using env_empty_accepted by (metis sum.collapse(2))
  have c: "session_manager_config cfg = JObj [(timeoutMs, JNum (Fin 1800000))]"
    using env_timeout_field(1)[OF cfg]
    by (simp add: session_manager_config_def env_var_example timeout_read_def js_Number_def)
  have "\<exists>i::int. Fin 1800000 = Fin (of_int i) \<and> 60000 \<le> i \<and> i \<le> 157680000000
          \<and> DEFAULT_SESSION_KEEP_ALIVE_INTERVAL_MS example_constants < of_int i
          \<and> DEFAULT_SESSION_CLEANUP_INTERVAL_MS example_constants \<le> of_int i"
    by (rule exI[of _ 1800000]) (simp add: example_constants_def)
  then obtain sm where "new_TransportSessionManager_spec example_constants (\<lambda>validated. 0)
          (JObj [(timeoutMs, JNum (Fin 1800000))]) = Some (sm::nat)"
    using constructor_spec_Some_iff[of example_constants "\<lambda>validated. 0::nat" "Fin 1800000"]
    by blast
  then have "new_TransportSessionManager example_modules (session_manager_config cfg) = Some sm"
    unfolding c by (simp add: example_modules_def)
  then have "\<not> isl (createExpressApp example_runtime [] example_modules)"
    by (simp add: createExpressApp_def cfg)
  then show ?thesis by simp
qed



section \<open>The legacy router with the flag off\<close>

text \<open>
  C7. With the legacy router as the spec describes it and the flag off, a request on
  the legacy router's surface that the global middleware and the health router pass on
  is answered 501 by the legacy router (which is always mounted, before the
  \<open>/mcp\<close> stack, and is built without the session manager): the session manager is
  as it was, and neither the filter chain nor the Streamable Router runs.
\<close>

theorem C7_legacy_disabled_501:
  assumes "createExpressApp R env M = Inr a"
    and "createSseRouter M = createSseRouter_spec False on_surface when_enabled not_implemented"
    and "helmet M req w = (Next req1, w1)"
    and "express_json M req1 w1 = (Next req2, w2)"
    and "createHealthRouter M req2 (sm, w2) = (Next req3, (sm, w3))"
    and "on_surface req3"
  shows "dispatch mounted (app a) req (sm, w)
           = (Replied (Response 501 not_implemented), (sm, w3),
              [Passed Helmet, Passed ExpressJson, Passed HealthRouter, Ended SseRouter])"
  unfolding app_of_createExpressApp[OF assms(1)]
  using assms(2-6) by (simp add: without_manager_def createSseRouter_spec_def)

theorem C7_legacy_disabled_501_witness:
  "dispatch path_under (app (projr (createExpressApp example_runtime [] example_modules)))
     (ustr ''/sse'') (0, 0)
     = (Replied (Response 501 (ustr ''Not Implemented'')), (0, 0),
        [Passed Helmet, Passed ExpressJson, Passed HealthRouter, Ended SseRouter])"
proof -
  have s: "createSseRouter example_modules
             = createSseRouter_spec False (\<lambda>req. req = ustr ''/sse'' \<or> req = ustr ''/sse/message'')
                 (\<lambda>req w. (Next req, w)) (ustr ''Not Implemented'')"
    by (simp add: example_modules_def)
  have h: "helmet example_modules (ustr ''/sse'') 0 = (Next (ustr ''/sse''), 0)"
    and j: "express_json example_modules (ustr ''/sse'') 0 = (Next (ustr ''/sse''), 0)"
    and g: "createHealthRouter example_modules (ustr ''/sse'') (0, 0) = (Next (ustr ''/sse''), (0, 0))"
    by (simp_all add: example_modules_def ustr_def)
  have o: "ustr ''/sse'' = ustr ''/sse'' \<or> ustr ''/sse'' = ustr ''/sse/message''" by simp
  show ?thesis
    by (rule C7_legacy_disabled_501[OF example_app s h j g, of path_under]) (rule o)
qed


section \<open>Order of the shutdown procedure\<close>






lemma shutdown_rejected:
  "closeAll M (manager ps) = None \<Longrightarrow>
   shutdown M ps =
     (ps\<lparr>exited := Some 1\<rparr>,
      [LogInfo ''Shutting down HTTP server...'', Called SessionCloseAll,
       Rejected SessionCloseAll, ProcessExit 1])"
  "closeAll M (manager ps) = Some sm' \<Longrightarrow> isSseEnabled M \<Longrightarrow>
   closeAllSseSessions M (world ps) = None \<Longrightarrow>
   shutdown M ps =
     (ps\<lparr>manager := sm', exited := Some 1\<rparr>,
      [LogInfo ''Shutting down HTTP server...'', Called SessionCloseAll,
       Settled SessionCloseAll, Called SseCloseAll, Rejected SseCloseAll, ProcessExit 1])"
  by (simp_all add: shutdown_def Let_def)



end
